theory Spec2Isabelle
  imports
    Main
    "HOL-Library.Word"
    "HOL-Library.AList"
    "HOL-Library.List_Lexorder"
    "HOL-Library.Product_Lexorder"
begin

unbundle bit_operations_syntax

section \<open>The name database of lib/covenants/db.js\<close>

text \<open>
  A shallow embedding of \<^verbatim>\<open>NameDB\<close> (src/lib/covenants/db.js). Buffers and hex
  hashes are byte lists. JavaScript numbers that hold heights are \<open>int\<close> (the source
  subtracts them without truncation); an output index and the index of an outpoint are
  unsigned 32-bit words. A thrown exception or failed \<^verbatim>\<open>assert\<close> is the left
  summand of the result.
\<close>

subsection \<open>Buffers, outpoints, errors\<close>

type_synonym bytes = "8 word list"
type_synonym hash = bytes

datatype error = AssertionError | TypeError | EncodingError

datatype outpoint = Outpoint (hash: hash) (index: "32 word")

text \<open>
  Modelled from the spec: \<^verbatim>\<open>Outpoint\<close> of lib/primitives/outpoint is not under
  src/. The spec gives an outpoint as the pair (tx-hash: 32 bytes, index: unsigned 32-bit)
  "or null". \<^verbatim>\<open>new Outpoint()\<close> is the null outpoint, \<^verbatim>\<open>isNull()\<close>
  recognises it, and \<^verbatim>\<open>equals\<close> compares both fields. The null outpoint is
  represented by the all-zero hash with the index 0xffffffff, which no output has.
\<close>

text \<open>Modelled from the spec: the hash of the null outpoint, 32 zero bytes.\<close>

definition ZERO_HASH :: hash where
  "ZERO_HASH = replicate 32 0"

text \<open>Modelled from the spec: \<^verbatim>\<open>new Outpoint()\<close>, the null outpoint.\<close>

definition null_outpoint :: outpoint where
  "null_outpoint = Outpoint ZERO_HASH 0xFFFFFFFF"

text \<open>Modelled from the spec: \<^verbatim>\<open>Outpoint.isNull\<close>.\<close>

definition isNull :: "outpoint \<Rightarrow> bool" where
  "isNull p = (p = null_outpoint)"

subsection \<open>Helpers: toU32, fromU32, toU64, fromU64\<close>

text \<open>
  Little-endian integers. \<^verbatim>\<open>writeUInt32LE(value, 0, true)\<close> and
  \<^verbatim>\<open>encoding.writeU64\<close> store the low 32 and 64 bits of the value;
  \<^verbatim>\<open>toU32\<close> and \<^verbatim>\<open>toU64\<close> assert the length of the buffer first.
  \<^verbatim>\<open>encoding.readU64\<close> (bufio, external) reads the two 32-bit halves \<open>lo\<close> and
  \<open>hi\<close>, throws an \<^verbatim>\<open>EncodingError\<close> unless \<^verbatim>\<open>(hi & 0xffe00000) === 0\<close>,
  that is unless \<open>hi\<close> is below \<open>2 ^ 21\<close> and the number below \<open>2 ^ 53\<close>, and
  returns \<^verbatim>\<open>hi * 0x100000000 + lo\<close>.
\<close>

fun le_decode :: "bytes \<Rightarrow> nat" where
  "le_decode [] = 0"
| "le_decode (b # bs) = unat b + 256 * le_decode bs"

fun le_encode :: "nat \<Rightarrow> nat \<Rightarrow> bytes" where
  "le_encode 0 v = []"
| "le_encode (Suc n) v = of_nat (v mod 256) # le_encode n (v div 256)"

text \<open>
  The values kept in the store. The serialisation of an auction
  (\<^verbatim>\<open>Auction.toRaw\<close> and \<^verbatim>\<open>Auction.fromRaw\<close>, not under src/) is opaque to
  the engine; the spec only asks that it round-trips, so a raw auction is the tuple of
  its serialised fields (name, owner, height, renewal, bids). Every other value is a
  buffer.
\<close>

datatype raw =
  RawAuction bytes outpoint int "int option" int
  | Buf bytes

fun toU32 :: "raw \<Rightarrow> error + int" where
  "toU32 (Buf data) = (if length data = 4 then Inr (int (le_decode data)) else Inl AssertionError)"
| "toU32 (RawAuction n p h r b) = Inl AssertionError"

definition fromU32 :: "int \<Rightarrow> raw" where
  "fromU32 v = Buf (le_encode 4 (nat (v mod 2 ^ 32)))"

definition readU64 :: "bytes \<Rightarrow> error + nat" where
  "readU64 data =
     (let hi = le_decode (take 4 (drop 4 data)); lo = le_decode (take 4 data) in
      if hi < 2 ^ 21 then Inr (hi * 2 ^ 32 + lo) else Inl EncodingError)"

fun toU64 :: "raw \<Rightarrow> error + nat" where
  "toU64 (Buf data) = (if length data = 8 then readU64 data else Inl AssertionError)"
| "toU64 (RawAuction n p h r b) = Inl AssertionError"

definition fromU64 :: "nat \<Rightarrow> raw" where
  "fromU64 v = Buf (le_encode 8 (v mod 2 ^ 64))"

subsection \<open>Database layout and the ordered key-value bucket\<close>

text \<open>
  The six key families of \<^verbatim>\<open>layout\<close>: \<^verbatim>\<open>a[name-hash]\<close>,
  \<^verbatim>\<open>n[hash][index]\<close>, \<^verbatim>\<open>b[name-hash][hash][index]\<close>,
  \<^verbatim>\<open>r[name-hash][hash][index]\<close>, \<^verbatim>\<open>u[hash][index]\<close> and
  \<^verbatim>\<open>k[hash][index]\<close>. A key is kept as its parts.
\<close>

datatype key =
  layout_a hash
  | layout_n hash "32 word"
  | layout_b hash hash "32 word"
  | layout_r hash hash "32 word"
  | layout_u hash "32 word"
  | layout_k hash "32 word"

text \<open>
  The bucket is an association list with \<^verbatim>\<open>get\<close>, \<^verbatim>\<open>put\<close> and
  \<^verbatim>\<open>del\<close>. The store (bdb, an external library) iterates a key range in ascending
  key order: under the fixed prefix \<^verbatim>\<open>r[name-hash]\<close> that is the lexicographic
  order of the rest of the key, the hash followed by the index.
\<close>

type_synonym bucket = "(key \<times> raw) list"

definition get :: "bucket \<Rightarrow> key \<Rightarrow> raw option" where
  "get b k = map_of b k"

definition put :: "key \<Rightarrow> raw \<Rightarrow> bucket \<Rightarrow> bucket" where
  "put k v b = AList.update k v b"

definition del :: "key \<Rightarrow> bucket \<Rightarrow> bucket" where
  "del k b = AList.delete k b"

fun r_entry :: "hash \<Rightarrow> key \<times> raw \<Rightarrow> ((hash \<times> 32 word) \<times> raw) option" where
  "r_entry nh (layout_r nh' h i, v) = (if nh' = nh then Some ((h, i), v) else None)"
| "r_entry nh (layout_a _, v) = None"
| "r_entry nh (layout_n _ _, v) = None"
| "r_entry nh (layout_b _ _ _, v) = None"
| "r_entry nh (layout_u _ _, v) = None"
| "r_entry nh (layout_k _ _, v) = None"

definition iterator_r :: "bucket \<Rightarrow> hash \<Rightarrow> ((hash \<times> 32 word) \<times> raw) list" where
  "iterator_r b nh = sort_key fst (List.map_filter (r_entry nh) b)"

text \<open>The trie (thc, an external library) maps a name hash to the hash of its data.\<close>

type_synonym trie = "(hash \<times> hash) list"

record namedb =
  bucket :: bucket
  trie :: trie

subsection \<open>pickWinner\<close>

text \<open>
  \<^verbatim>\<open>iter.each\<close> with \<^verbatim>\<open>best = 0\<close> and \<^verbatim>\<open>winner = null\<close>: a record whose
  value is at least \<^verbatim>\<open>best\<close> becomes the winner.
\<close>

fun pick_each ::
  "((hash \<times> 32 word) \<times> raw) list \<Rightarrow> nat \<times> outpoint option \<Rightarrow> error + (nat \<times> outpoint option)" where
  "pick_each [] s = Inr s"
| "pick_each (((h, i), v) # rest) (best, winner) =
     (case toU64 v of
        Inl e \<Rightarrow> Inl e
      | Inr bid \<Rightarrow>
          if bid \<ge> best then pick_each rest (bid, Some (Outpoint h i))
          else pick_each rest (best, winner))"

definition pickWinner :: "namedb \<Rightarrow> hash \<Rightarrow> error + outpoint option" where
  "pickWinner db nameHash =
     (case pick_each (iterator_r (bucket db) nameHash) (0, None) of
        Inl e \<Rightarrow> Inl e
      | Inr (best, winner) \<Rightarrow> Inr winner)"

subsection \<open>Covenants, coins and transactions\<close>

text \<open>
  Modelled from the spec: \<^verbatim>\<open>rules.types\<close> and
  \<^verbatim>\<open>rules.MAX_COVENANT_TYPE\<close> of lib/covenants/rules are not under src/. The
  spec lists the covenant kinds NONE, BID, REVEAL, REDEEM, UPDATE, TRANSFER and RELEASE;
  a numeric type above \<^verbatim>\<open>MAX_COVENANT_TYPE\<close> is \<open>UNKNOWN\<close>, and the seven
  named kinds are not above it.
\<close>

datatype covenant_type = NONE | BID | REVEAL | REDEEM | UPDATE | TRANSFER | RELEASE | UNKNOWN nat

text \<open>Modelled from the spec: the test \<^verbatim>\<open>type > rules.MAX_COVENANT_TYPE\<close>.\<close>

fun above_MAX_COVENANT_TYPE :: "covenant_type \<Rightarrow> bool" where
  "above_MAX_COVENANT_TYPE (UNKNOWN n) = True"
| "above_MAX_COVENANT_TYPE NONE = False"
| "above_MAX_COVENANT_TYPE BID = False"
| "above_MAX_COVENANT_TYPE REVEAL = False"
| "above_MAX_COVENANT_TYPE REDEEM = False"
| "above_MAX_COVENANT_TYPE UPDATE = False"
| "above_MAX_COVENANT_TYPE TRANSFER = False"
| "above_MAX_COVENANT_TYPE RELEASE = False"

record covenant =
  type :: covenant_type
  items :: "bytes list"

text \<open>\<^verbatim>\<open>covenant.items[n]\<close>: \<^verbatim>\<open>undefined\<close> beyond the end of the array.\<close>

definition item :: "covenant \<Rightarrow> nat \<Rightarrow> bytes option" where
  "item c n = (if n < length (items c) then Some (items c ! n) else None)"

text \<open>
  An output and a coin both carry \<^verbatim>\<open>value\<close> (here \<open>amount\<close>) and
  \<^verbatim>\<open>covenant\<close>. A transaction is given with the results of
  \<^verbatim>\<open>tx.hash('hex')\<close> and \<^verbatim>\<open>tx.isCoinbase()\<close>, a block with its
  \<^verbatim>\<open>trieRoot\<close> and its transactions.
\<close>

record txoutput =
  amount :: nat
  covenant :: covenant

record txinput =
  prevout :: outpoint

record tx =
  tx_hash :: hash
  isCoinbase :: bool
  inputs :: "txinput list"
  outputs :: "txoutput list"

record block =
  trieRoot :: hash
  txs :: "tx list"

subsection \<open>The auction record\<close>

text \<open>
  The pending operations of \<^verbatim>\<open>auction.ops\<close>, one constructor for each
  \<^verbatim>\<open>types.*\<close> case of \<^verbatim>\<open>saveAuction\<close>, with the parameters that case
  destructures.
\<close>

datatype op =
  ADD_AUCTION
  | REMOVE_AUCTION
  | ADD_BID outpoint
  | REMOVE_BID outpoint
  | ADD_REVEAL outpoint nat
  | REMOVE_REVEAL outpoint
  | ADD_OWNER outpoint
  | REMOVE_OWNER outpoint
  | COMMIT "bytes option"
  | UNCOMMIT
  | ADD_UNDO outpoint raw
  | REMOVE_UNDO outpoint
  | ADD_RENEWAL outpoint "int option"
  | REMOVE_RENEWAL outpoint

text \<open>
  The fields of an auction. \<open>renewal\<close> is a JavaScript number or \<^verbatim>\<open>null\<close>
  (\<open>None\<close>): \<^verbatim>\<open>disconnectCovenants\<close> assigns it the result of
  \<^verbatim>\<open>getUndoRenewal\<close>, which may be \<^verbatim>\<open>null\<close>.
\<close>

record auction =
  name :: bytes
  nameHash :: hash
  owner :: outpoint
  height :: int
  renewal :: "int option"
  bids :: int
  ops :: "op list"

text \<open>A number read from a field that may hold \<^verbatim>\<open>null\<close>: \<^verbatim>\<open>null + n\<close> is \<^verbatim>\<open>n\<close>.\<close>

fun num :: "int option \<Rightarrow> int" where
  "num None = 0"
| "num (Some n) = n"

datatype state = states_BIDDING | states_REVEAL | states_CLOSED

text \<open>
  Modelled from the spec: the numeric values of \<^verbatim>\<open>Auction.states\<close> are not under
  src/; the spec orders the phases BIDDING, REVEAL, CLOSED.
\<close>

fun state_num :: "state \<Rightarrow> nat" where
  "state_num states_BIDDING = 0"
| "state_num states_REVEAL = 1"
| "state_num states_CLOSED = 2"

text \<open>
  Modelled from the spec: \<^verbatim>\<open>Auction.toRaw\<close> and \<^verbatim>\<open>Auction.fromRaw\<close>
  (lib/covenants/auction, not under src/) round-trip the serialised fields; the name hash
  and the pending operations are not serialised.
\<close>

definition toRaw :: "auction \<Rightarrow> raw" where
  "toRaw a = RawAuction (name a) (owner a) (height a) (renewal a) (bids a)"

text \<open>Modelled from the spec: \<^verbatim>\<open>Auction.fromRaw\<close>, the inverse of \<^verbatim>\<open>toRaw\<close> on a serialised auction.\<close>

fun fromRaw :: "raw \<Rightarrow> error + auction" where
  "fromRaw (RawAuction n p h r b) =
     Inr \<lparr>name = n, nameHash = ZERO_HASH, owner = p, height = h, renewal = r, bids = b, ops = []\<rparr>"
| "fromRaw (Buf data) = Inl EncodingError"

text \<open>
  Modelled from the spec: the mutators of \<^verbatim>\<open>Auction\<close> (lib/covenants/auction, not
  under src/). The spec: "each appends exactly one op to ops". \<open>addBid\<close> and
  \<open>removeBid\<close> keep the count \<open>bids\<close> of currently recorded bids; \<open>setOwner\<close>
  sets the owner; \<open>setNull\<close> resets the owner to null; \<open>addUndo\<close> snapshots the
  serialised auction; and, in the spec's words, an accepted renewal "records the prior
  renewal height under key k[prevout] and updates renewal to height", which is
  \<open>addRenewal\<close>, the only call the renewal branch of \<^verbatim>\<open>connectCovenants\<close>
  makes.
\<close>

text \<open>Modelled from the spec: \<^verbatim>\<open>Auction.addBid\<close>, one more recorded bid.\<close>

definition addBid :: "outpoint \<Rightarrow> auction \<Rightarrow> auction" where
  "addBid p a = a\<lparr>bids := bids a + 1, ops := ops a @ [ADD_BID p]\<rparr>"

text \<open>Modelled from the spec: \<^verbatim>\<open>Auction.removeBid\<close>, one recorded bid fewer.\<close>

definition removeBid :: "outpoint \<Rightarrow> auction \<Rightarrow> auction" where
  "removeBid p a = a\<lparr>bids := bids a - 1, ops := ops a @ [REMOVE_BID p]\<rparr>"

text \<open>Modelled from the spec: \<^verbatim>\<open>Auction.addReveal\<close>.\<close>

definition addReveal :: "outpoint \<Rightarrow> nat \<Rightarrow> auction \<Rightarrow> auction" where
  "addReveal p v a = a\<lparr>ops := ops a @ [ADD_REVEAL p v]\<rparr>"

text \<open>Modelled from the spec: \<^verbatim>\<open>Auction.removeReveal\<close>.\<close>

definition removeReveal :: "outpoint \<Rightarrow> auction \<Rightarrow> auction" where
  "removeReveal p a = a\<lparr>ops := ops a @ [REMOVE_REVEAL p]\<rparr>"

text \<open>Modelled from the spec: \<^verbatim>\<open>Auction.setOwner\<close>, the new owner.\<close>

definition setOwner :: "outpoint \<Rightarrow> auction \<Rightarrow> auction" where
  "setOwner p a = a\<lparr>owner := p, ops := ops a @ [ADD_OWNER p]\<rparr>"

text \<open>Modelled from the spec: \<^verbatim>\<open>Auction.setNull\<close>, no owner.\<close>

definition setNull :: "auction \<Rightarrow> auction" where
  "setNull a = a\<lparr>owner := null_outpoint, ops := ops a @ [REMOVE_OWNER (owner a)]\<rparr>"

text \<open>Modelled from the spec: \<^verbatim>\<open>Auction.isNull\<close>, an auction without owner.\<close>

definition auction_isNull :: "auction \<Rightarrow> bool" where
  "auction_isNull a = isNull (owner a)"

text \<open>Modelled from the spec: \<^verbatim>\<open>Auction.commit\<close>, the data to commit to the trie.\<close>

definition commit :: "bytes option \<Rightarrow> auction \<Rightarrow> auction" where
  "commit d a = a\<lparr>ops := ops a @ [COMMIT d]\<rparr>"

text \<open>Modelled from the spec: \<^verbatim>\<open>Auction.uncommit\<close>.\<close>

definition uncommit :: "auction \<Rightarrow> auction" where
  "uncommit a = a\<lparr>ops := ops a @ [UNCOMMIT]\<rparr>"

text \<open>Modelled from the spec: \<^verbatim>\<open>Auction.addUndo\<close>, a snapshot of the serialised auction.\<close>

definition addUndo :: "outpoint \<Rightarrow> auction \<Rightarrow> auction" where
  "addUndo p a = a\<lparr>ops := ops a @ [ADD_UNDO p (toRaw a)]\<rparr>"

text \<open>Modelled from the spec: \<^verbatim>\<open>Auction.removeUndo\<close>.\<close>

definition removeUndo :: "outpoint \<Rightarrow> auction \<Rightarrow> auction" where
  "removeUndo p a = a\<lparr>ops := ops a @ [REMOVE_UNDO p]\<rparr>"

text \<open>Modelled from the spec: \<^verbatim>\<open>Auction.addRenewal\<close>, which records the prior renewal height and sets the renewal height.\<close>

definition addRenewal :: "outpoint \<Rightarrow> int \<Rightarrow> auction \<Rightarrow> auction" where
  "addRenewal p hgt a = a\<lparr>renewal := Some hgt, ops := ops a @ [ADD_RENEWAL p (renewal a)]\<rparr>"

text \<open>Modelled from the spec: \<^verbatim>\<open>Auction.removeRenewal\<close>.\<close>

definition removeRenewal :: "outpoint \<Rightarrow> auction \<Rightarrow> auction" where
  "removeRenewal p a = a\<lparr>ops := ops a @ [REMOVE_RENEWAL p]\<rparr>"

text \<open>Modelled from the spec: \<^verbatim>\<open>Auction.save\<close>.\<close>

definition save :: "auction \<Rightarrow> auction" where
  "save a = a\<lparr>ops := ops a @ [ADD_AUCTION]\<rparr>"

text \<open>Modelled from the spec: \<^verbatim>\<open>Auction.remove\<close>.\<close>

definition remove :: "auction \<Rightarrow> auction" where
  "remove a = a\<lparr>ops := ops a @ [REMOVE_AUCTION]\<rparr>"

subsection \<open>The environment: hashing, consensus parameters, the chain\<close>

text \<open>
  What the engine uses and src/ does not define is a parameter: the digest
  \<^verbatim>\<open>blake2b.digest\<close>, the root hash \<^verbatim>\<open>trie.hash\<close> as a function of the
  trie's contents, \<^verbatim>\<open>network.type\<close>, the phase function
  \<^verbatim>\<open>auction.state(height, network)\<close> (by the spec a pure function of the epoch
  start \<^verbatim>\<open>auction.height\<close>, the height and the chain parameters), the constants of
  \<^verbatim>\<open>rules\<close> and \<^verbatim>\<open>consensus\<close>, and \<^verbatim>\<open>chaindb.getEntry\<close> and
  \<^verbatim>\<open>chaindb.isMainChain\<close>. Of a chain entry the engine reads the height.
\<close>

record entry =
  entry_hash :: hash
  entry_height :: int

record env =
  digest :: "bytes \<Rightarrow> hash"
  trie_hash :: "(hash \<Rightarrow> hash option) \<Rightarrow> hash"
  network_type :: string
  state_of :: "int \<Rightarrow> int \<Rightarrow> state"
  COINBASE_MATURITY :: int
  RENEWAL_PERIOD :: int
  RENEWAL_WINDOW :: int
  ROLLOUT_INTERVAL :: int
  getEntry :: "bytes \<Rightarrow> entry option"
  isMainChain :: "entry \<Rightarrow> bool"

text \<open>Modelled from the spec: \<^verbatim>\<open>Auction.state(height, network)\<close>, a function of the epoch start and the height.\<close>

definition auction_state :: "env \<Rightarrow> auction \<Rightarrow> int \<Rightarrow> state" where
  "auction_state E a hgt = state_of E (height a) hgt"

subsection \<open>Reading the database\<close>

definition getAuction :: "namedb \<Rightarrow> hash \<Rightarrow> error + auction option" where
  "getAuction db nh =
     (case get (bucket db) (layout_a nh) of
        None \<Rightarrow> Inr None
      | Some rw \<Rightarrow>
          (case fromRaw rw of
             Inl e \<Rightarrow> Inl e
           | Inr a \<Rightarrow> Inr (Some (a\<lparr>nameHash := nh\<rparr>))))"

definition getAuctionHash :: "namedb \<Rightarrow> outpoint \<Rightarrow> raw option" where
  "getAuctionHash db p = get (bucket db) (layout_n (hash p) (index p))"

text \<open>
  \<^verbatim>\<open>getAuction\<close> asserts that the name hash is a buffer; a reverse-index value
  that is not one is an error.
\<close>

definition getAuctionFor :: "namedb \<Rightarrow> outpoint \<Rightarrow> error + auction option" where
  "getAuctionFor db p =
     (case getAuctionHash db p of
        None \<Rightarrow> Inr None
      | Some (Buf nh) \<Rightarrow> getAuction db nh
      | Some (RawAuction n q h r b) \<Rightarrow> Inl AssertionError)"

definition getUndo :: "env \<Rightarrow> namedb \<Rightarrow> outpoint \<Rightarrow> error + auction option" where
  "getUndo E db p =
     (case get (bucket db) (layout_u (hash p) (index p)) of
        None \<Rightarrow> Inr None
      | Some rw \<Rightarrow>
          (case fromRaw rw of
             Inl e \<Rightarrow> Inl e
           | Inr a \<Rightarrow> Inr (Some (a\<lparr>nameHash := digest E (name a)\<rparr>))))"

definition getUndoRenewal :: "namedb \<Rightarrow> outpoint \<Rightarrow> error + int option" where
  "getUndoRenewal db p =
     (case get (bucket db) (layout_k (hash p) (index p)) of
        None \<Rightarrow> Inr None
      | Some rw \<Rightarrow>
          (case toU32 rw of
             Inl e \<Rightarrow> Inl e
           | Inr n \<Rightarrow> Inr (Some n)))"

definition getTrieRoot :: "env \<Rightarrow> namedb \<Rightarrow> hash" where
  "getTrieRoot E db = trie_hash E (map_of (trie db))"

subsection \<open>The view\<close>

text \<open>
  Modelled from the spec: the view class is not under src/. By the spec it is a per-block
  cache mapping a name hash to its auction, "populated by ensureAuction (creates if
  absent) and getAuctionFor (follows the reverse index)", that lazy-loads from the
  engine on first touch, and it supplies \<^verbatim>\<open>getOutput(outpoint)\<close>, the coin
  \<^verbatim>\<open>{value, covenant}\<close> of a prior output. A new auction starts its epoch at the
  current height with no owner and no bids. The engine mutates the auction objects of the
  view in place; here \<open>put_auction\<close> writes the mutated auction back under its name
  hash.
\<close>

record view =
  auctions :: "(hash \<times> auction) list"
  coins :: "(outpoint \<times> txoutput) list"

text \<open>Modelled from the spec: \<^verbatim>\<open>view.getOutput\<close>.\<close>

definition getOutput :: "view \<Rightarrow> outpoint \<Rightarrow> txoutput option" where
  "getOutput v p = map_of (coins v) p"

text \<open>Modelled from the spec: \<^verbatim>\<open>view.getAuction\<close>, cached or loaded from the engine.\<close>

definition view_getAuction :: "namedb \<Rightarrow> hash \<Rightarrow> view \<Rightarrow> error + (auction option \<times> view)" where
  "view_getAuction db nh v =
     (case map_of (auctions v) nh of
        Some a \<Rightarrow> Inr (Some a, v)
      | None \<Rightarrow>
          (case getAuction db nh of
             Inl e \<Rightarrow> Inl e
           | Inr None \<Rightarrow> Inr (None, v)
           | Inr (Some a) \<Rightarrow> Inr (Some a, v\<lparr>auctions := auctions v @ [(nh, a)]\<rparr>)))"

text \<open>Modelled from the spec: \<^verbatim>\<open>view.getAuctionFor\<close>, through the reverse index.\<close>

definition view_getAuctionFor ::
  "namedb \<Rightarrow> outpoint \<Rightarrow> view \<Rightarrow> error + (auction option \<times> view)" where
  "view_getAuctionFor db p v =
     (case getAuctionHash db p of
        None \<Rightarrow> Inr (None, v)
      | Some (Buf nh) \<Rightarrow> view_getAuction db nh v
      | Some (RawAuction n q h r b) \<Rightarrow> Inl AssertionError)"

text \<open>Modelled from the spec: \<^verbatim>\<open>view.ensureAuction\<close>, which creates the auction if absent.\<close>

definition view_ensureAuction ::
  "namedb \<Rightarrow> bytes \<Rightarrow> hash \<Rightarrow> int \<Rightarrow> view \<Rightarrow> error + (auction \<times> view)" where
  "view_ensureAuction db nm nh hgt v =
     (case view_getAuction db nh v of
        Inl e \<Rightarrow> Inl e
      | Inr (Some a, v1) \<Rightarrow> Inr (a, v1)
      | Inr (None, v1) \<Rightarrow>
          (let a = \<lparr>name = nm, nameHash = nh, owner = null_outpoint, height = hgt,
                    renewal = Some hgt, bids = 0, ops = []\<rparr>
           in Inr (a, v1\<lparr>auctions := auctions v1 @ [(nh, a)]\<rparr>)))"

text \<open>Modelled from the spec: the write-back of an auction object that the engine has mutated.\<close>

definition put_auction :: "auction \<Rightarrow> view \<Rightarrow> view" where
  "put_auction a v = v\<lparr>auctions := AList.update (nameHash a) a (auctions v)\<rparr>"

subsection \<open>saveAuction and saveView\<close>

text \<open>
  One case of the \<^verbatim>\<open>switch\<close> of \<^verbatim>\<open>saveAuction\<close>. \<^verbatim>\<open>b.put\<close> and
  \<^verbatim>\<open>b.del\<close> act on the bucket, \<^verbatim>\<open>trie.insert\<close> and \<^verbatim>\<open>trie.remove\<close>
  on the trie. \<^verbatim>\<open>ADD_AUCTION\<close> serialises the auction as it is when the view is
  flushed. \<^verbatim>\<open>blake2b.digest\<close> of \<^verbatim>\<open>undefined\<close> throws.
\<close>

fun save_op :: "env \<Rightarrow> auction \<Rightarrow> op \<Rightarrow> namedb \<Rightarrow> error + namedb" where
  "save_op E a ADD_AUCTION db =
     Inr (db\<lparr>bucket := put (layout_a (nameHash a)) (toRaw a) (bucket db)\<rparr>)"
| "save_op E a REMOVE_AUCTION db =
     Inr (db\<lparr>bucket := del (layout_a (nameHash a)) (bucket db)\<rparr>)"
| "save_op E a (ADD_BID p) db =
     Inr (db\<lparr>bucket := put (layout_n (hash p) (index p)) (Buf (nameHash a))
                          (put (layout_b (nameHash a) (hash p) (index p)) (Buf []) (bucket db))\<rparr>)"
| "save_op E a (REMOVE_BID p) db =
     Inr (db\<lparr>bucket := del (layout_n (hash p) (index p))
                          (del (layout_b (nameHash a) (hash p) (index p)) (bucket db))\<rparr>)"
| "save_op E a (ADD_REVEAL p v) db =
     Inr (db\<lparr>bucket := put (layout_n (hash p) (index p)) (Buf (nameHash a))
                          (put (layout_r (nameHash a) (hash p) (index p)) (fromU64 v) (bucket db))\<rparr>)"
| "save_op E a (REMOVE_REVEAL p) db =
     Inr (db\<lparr>bucket := del (layout_n (hash p) (index p))
                          (del (layout_r (nameHash a) (hash p) (index p)) (bucket db))\<rparr>)"
| "save_op E a (ADD_OWNER p) db =
     Inr (db\<lparr>bucket := put (layout_n (hash p) (index p)) (Buf (nameHash a)) (bucket db)\<rparr>)"
| "save_op E a (REMOVE_OWNER p) db =
     Inr (db\<lparr>bucket := del (layout_n (hash p) (index p)) (bucket db)\<rparr>)"
| "save_op E a (COMMIT None) db = Inl TypeError"
| "save_op E a (COMMIT (Some d)) db =
     Inr (db\<lparr>trie := AList.update (nameHash a) (digest E d) (trie db)\<rparr>)"
| "save_op E a UNCOMMIT db =
     Inr (db\<lparr>trie := AList.delete (nameHash a) (trie db)\<rparr>)"
| "save_op E a (ADD_UNDO p v) db =
     Inr (db\<lparr>bucket := put (layout_u (hash p) (index p)) v (bucket db)\<rparr>)"
| "save_op E a (REMOVE_UNDO p) db =
     Inr (db\<lparr>bucket := del (layout_u (hash p) (index p)) (bucket db)\<rparr>)"
| "save_op E a (ADD_RENEWAL p v) db =
     Inr (db\<lparr>bucket := put (layout_k (hash p) (index p)) (fromU32 (num v)) (bucket db)\<rparr>)"
| "save_op E a (REMOVE_RENEWAL p) db =
     Inr (db\<lparr>bucket := del (layout_k (hash p) (index p)) (bucket db)\<rparr>)"

fun save_ops :: "env \<Rightarrow> auction \<Rightarrow> op list \<Rightarrow> namedb \<Rightarrow> error + namedb" where
  "save_ops E a [] db = Inr db"
| "save_ops E a (x # xs) db =
     (case save_op E a x db of
        Inl e \<Rightarrow> Inl e
      | Inr db1 \<Rightarrow> save_ops E a xs db1)"

text \<open>\<^verbatim>\<open>auction.ops.length = 0\<close> empties the log once it has been replayed.\<close>

definition saveAuction :: "env \<Rightarrow> auction \<Rightarrow> namedb \<Rightarrow> error + (namedb \<times> auction)" where
  "saveAuction E a db =
     (case save_ops E a (ops a) db of
        Inl e \<Rightarrow> Inl e
      | Inr db1 \<Rightarrow> Inr (db1, a\<lparr>ops := []\<rparr>))"

fun save_auctions ::
  "env \<Rightarrow> (hash \<times> auction) list \<Rightarrow> namedb \<Rightarrow> error + (namedb \<times> (hash \<times> auction) list)" where
  "save_auctions E [] db = Inr (db, [])"
| "save_auctions E ((nh, a) # rest) db =
     (case saveAuction E a db of
        Inl e \<Rightarrow> Inl e
      | Inr (db1, a1) \<Rightarrow>
          (case save_auctions E rest db1 of
             Inl e \<Rightarrow> Inl e
           | Inr (db2, rest1) \<Rightarrow> Inr (db2, (nh, a1) # rest1)))"

definition saveView :: "env \<Rightarrow> view \<Rightarrow> namedb \<Rightarrow> error + (namedb \<times> view)" where
  "saveView E v db =
     (case save_auctions E (auctions v) db of
        Inl e \<Rightarrow> Inl e
      | Inr (db1, as) \<Rightarrow> Inr (db1, v\<lparr>auctions := as\<rparr>))"

subsection \<open>connectCovenants\<close>

text \<open>
  The body of a loop either executes \<^verbatim>\<open>return b\<close> or goes on to the next index
  (\<^verbatim>\<open>continue\<close>, or the end of the body).
\<close>

datatype 'a flow = Return bool 'a | Continue 'a

fun for_each :: "(nat \<Rightarrow> 's \<Rightarrow> error + 's flow) \<Rightarrow> nat list \<Rightarrow> 's \<Rightarrow> error + 's flow" where
  "for_each f [] s = Inr (Continue s)"
| "for_each f (i # rest) s =
     (case f i s of
        Inl e \<Rightarrow> Inl e
      | Inr (Return b s1) \<Rightarrow> Inr (Return b s1)
      | Inr (Continue s1) \<Rightarrow> for_each f rest s1)"

text \<open>
  Modelled from the spec: \<^verbatim>\<open>Outpoint.equals\<close> is not under src/; it compares with
  another outpoint and throws on \<^verbatim>\<open>null\<close>, the result of \<^verbatim>\<open>pickWinner\<close>
  when there is no reveal.
\<close>

fun equals :: "outpoint \<Rightarrow> outpoint option \<Rightarrow> error + bool" where
  "equals p None = Inl AssertionError"
| "equals p (Some q) = Inr (p = q)"

text \<open>
  The three lines that open each arm of the input loop:
  \<^verbatim>\<open>auction = await view.getAuctionFor(this, prevout); assert(output); assert(auction)\<close>.
\<close>

definition load_auction ::
  "namedb \<Rightarrow> outpoint \<Rightarrow> txoutput option \<Rightarrow> view \<Rightarrow> error + (txoutput \<times> auction \<times> view)" where
  "load_auction db po output v =
     (case view_getAuctionFor db po v of
        Inl e \<Rightarrow> Inl e
      | Inr (ao, v1) \<Rightarrow>
          (case output of
             None \<Rightarrow> Inl AssertionError
           | Some out \<Rightarrow>
               (case ao of
                  None \<Rightarrow> Inl AssertionError
                | Some a \<Rightarrow> Inr (out, a, v1))))"

definition store_flow :: "view \<Rightarrow> error + auction flow \<Rightarrow> error + view flow" where
  "store_flow v r =
     (case r of
        Inl e \<Rightarrow> Inl e
      | Inr (Return b a) \<Rightarrow> Inr (Return b (put_auction a v))
      | Inr (Continue a) \<Rightarrow> Inr (Continue (put_auction a v)))"

text \<open>Prior covenant BID.\<close>

definition connect_BID ::
  "env \<Rightarrow> int \<Rightarrow> outpoint \<Rightarrow> outpoint \<Rightarrow> txoutput \<Rightarrow> auction \<Rightarrow> error + auction flow" where
  "connect_BID E hgt po outpoint out a =
     (if state_num (auction_state E a hgt) > state_num states_REVEAL then Inr (Return False a)
      else
        (case type (covenant out) of
           REVEAL \<Rightarrow> Inr (Continue (save (addReveal outpoint (amount out) (removeBid po a))))
         | _ \<Rightarrow> Inl AssertionError))"

text \<open>Prior covenant REVEAL. The winner is the owner, or \<^verbatim>\<open>pickWinner\<close> when there is none.\<close>

definition connect_REVEAL ::
  "env \<Rightarrow> namedb \<Rightarrow> int \<Rightarrow> outpoint \<Rightarrow> outpoint \<Rightarrow> txoutput \<Rightarrow> auction \<Rightarrow> error + auction flow" where
  "connect_REVEAL E db hgt po outpoint out a =
     (if auction_state E a hgt \<noteq> states_CLOSED then Inr (Return False a)
      else
        (case (if isNull (owner a) then pickWinner db (nameHash a) else Inr (Some (owner a))) of
           Inl e \<Rightarrow> Inl e
         | Inr winner \<Rightarrow>
             (case type (covenant out) of
                REDEEM \<Rightarrow>
                  (case equals po winner of
                     Inl e \<Rightarrow> Inl e
                   | Inr is_winner \<Rightarrow>
                       if is_winner then Inr (Return False a)
                       else Inr (Continue (removeReveal po a)))
              | UPDATE \<Rightarrow>
                  (case equals po winner of
                     Inl e \<Rightarrow> Inl e
                   | Inr is_winner \<Rightarrow>
                       if \<not> is_winner then Inr (Return False a)
                       else Inr (Continue
                         (save (commit (item (covenant out) 1)
                            ((setOwner outpoint (removeReveal po a))\<lparr>renewal := Some hgt\<rparr>)))))
              | TRANSFER \<Rightarrow>
                  (case equals po winner of
                     Inl e \<Rightarrow> Inl e
                   | Inr is_winner \<Rightarrow>
                       if \<not> is_winner then Inr (Return False a)
                       else Inr (Continue
                         (save ((setOwner outpoint (removeReveal po a))\<lparr>renewal := Some hgt\<rparr>))))
              | RELEASE \<Rightarrow>
                  (case equals po winner of
                     Inl e \<Rightarrow> Inl e
                   | Inr is_winner \<Rightarrow>
                       if \<not> is_winner then Inr (Return False a)
                       else Inr (Continue (setNull (addUndo po (removeReveal po a)))))
              | _ \<Rightarrow> Inl AssertionError)))"

text \<open>
  Prior covenant UPDATE. The \<^verbatim>\<open>switch\<close> has no \<^verbatim>\<open>break\<close> at the end of
  \<^verbatim>\<open>case types.UPDATE\<close>: control falls through into \<^verbatim>\<open>case types.TRANSFER\<close>,
  whose body is a \<^verbatim>\<open>break\<close>.
\<close>

definition update_case_TRANSFER :: "auction \<Rightarrow> error + auction flow" where
  "update_case_TRANSFER a = Inr (Continue a)"

definition update_case_RELEASE :: "outpoint \<Rightarrow> auction \<Rightarrow> error + auction flow" where
  "update_case_RELEASE po a = Inr (Continue (uncommit (save (setNull (addUndo po a)))))"

definition update_case_UPDATE ::
  "env \<Rightarrow> int \<Rightarrow> outpoint \<Rightarrow> outpoint \<Rightarrow> covenant \<Rightarrow> auction \<Rightarrow> error + auction flow" where
  "update_case_UPDATE E hgt po outpoint c a =
     (let a1 = commit (item c 1) (setOwner outpoint a) in
      if length (items c) = 3 then
        (case getEntry E (items c ! 2) of
           None \<Rightarrow> Inr (Return False a1)
         | Some en \<Rightarrow>
             if \<not> isMainChain E en then Inr (Return False a1)
             else if entry_height en > hgt - COINBASE_MATURITY E then Inr (Return False a1)
             else if entry_height en < hgt - RENEWAL_PERIOD E then Inr (Return False a1)
             else update_case_TRANSFER (save (addRenewal po hgt a1)))
      else update_case_TRANSFER (save a1))"

definition connect_UPDATE ::
  "env \<Rightarrow> int \<Rightarrow> outpoint \<Rightarrow> outpoint \<Rightarrow> txoutput \<Rightarrow> auction \<Rightarrow> error + auction flow" where
  "connect_UPDATE E hgt po outpoint out a =
     (if auction_state E a hgt \<noteq> states_CLOSED then Inr (Return False a)
      else if po \<noteq> owner a then Inr (Return False a)
      else
        (case type (covenant out) of
           UPDATE \<Rightarrow> update_case_UPDATE E hgt po outpoint (covenant out) a
         | TRANSFER \<Rightarrow> update_case_TRANSFER a
         | RELEASE \<Rightarrow> update_case_RELEASE po a
         | _ \<Rightarrow> Inl AssertionError))"

text \<open>
  The variant the spec describes, in which \<^verbatim>\<open>case types.UPDATE\<close> ends with a
  \<^verbatim>\<open>break\<close> instead of falling through.
\<close>

definition update_case_UPDATE_break ::
  "env \<Rightarrow> int \<Rightarrow> outpoint \<Rightarrow> outpoint \<Rightarrow> covenant \<Rightarrow> auction \<Rightarrow> error + auction flow" where
  "update_case_UPDATE_break E hgt po outpoint c a =
     (let a1 = commit (item c 1) (setOwner outpoint a) in
      if length (items c) = 3 then
        (case getEntry E (items c ! 2) of
           None \<Rightarrow> Inr (Return False a1)
         | Some en \<Rightarrow>
             if \<not> isMainChain E en then Inr (Return False a1)
             else if entry_height en > hgt - COINBASE_MATURITY E then Inr (Return False a1)
             else if entry_height en < hgt - RENEWAL_PERIOD E then Inr (Return False a1)
             else Inr (Continue (save (addRenewal po hgt a1))))
      else Inr (Continue (save a1)))"

definition connect_UPDATE_break ::
  "env \<Rightarrow> int \<Rightarrow> outpoint \<Rightarrow> outpoint \<Rightarrow> txoutput \<Rightarrow> auction \<Rightarrow> error + auction flow" where
  "connect_UPDATE_break E hgt po outpoint out a =
     (if auction_state E a hgt \<noteq> states_CLOSED then Inr (Return False a)
      else if po \<noteq> owner a then Inr (Return False a)
      else
        (case type (covenant out) of
           UPDATE \<Rightarrow> update_case_UPDATE_break E hgt po outpoint (covenant out) a
         | TRANSFER \<Rightarrow> update_case_TRANSFER a
         | RELEASE \<Rightarrow> update_case_RELEASE po a
         | _ \<Rightarrow> Inl AssertionError))"

text \<open>Prior covenant TRANSFER.\<close>

definition connect_TRANSFER ::
  "env \<Rightarrow> int \<Rightarrow> outpoint \<Rightarrow> outpoint \<Rightarrow> txoutput \<Rightarrow> auction \<Rightarrow> error + auction flow" where
  "connect_TRANSFER E hgt po outpoint out a =
     (if auction_state E a hgt \<noteq> states_CLOSED then Inr (Return False a)
      else if po \<noteq> owner a then Inr (Return False a)
      else
        (case type (covenant out) of
           UPDATE \<Rightarrow> Inr (Continue (save (commit (item (covenant out) 1) (setOwner outpoint a))))
         | RELEASE \<Rightarrow> Inr (Continue (uncommit (save (setNull (addUndo po a)))))
         | _ \<Rightarrow> Inl AssertionError))"

text \<open>
  One iteration of the loop over \<^verbatim>\<open>tx.inputs\<close>. \<^verbatim>\<open>coin.covenant\<close> throws when
  the view has no coin for the prevout. The output at the same index is
  \<^verbatim>\<open>null\<close> when the transaction has fewer outputs.
\<close>

definition connect_input :: "env \<Rightarrow> namedb \<Rightarrow> tx \<Rightarrow> int \<Rightarrow> nat \<Rightarrow> view \<Rightarrow> error + view flow" where
  "connect_input E db t hgt i v =
     (let po = prevout (inputs t ! i) in
      case getOutput v po of
        None \<Rightarrow> Inl TypeError
      | Some coin \<Rightarrow>
          (let uc = covenant coin;
               output = (if i < length (outputs t) then Some (outputs t ! i) else None);
               outpoint = Outpoint (tx_hash t) (of_nat i)
           in
             if type uc = NONE then Inr (Continue v)
             else if type uc = BID then
               (case load_auction db po output v of
                  Inl e \<Rightarrow> Inl e
                | Inr (out, a, v1) \<Rightarrow> store_flow v1 (connect_BID E hgt po outpoint out a))
             else if type uc = REVEAL then
               (case load_auction db po output v of
                  Inl e \<Rightarrow> Inl e
                | Inr (out, a, v1) \<Rightarrow> store_flow v1 (connect_REVEAL E db hgt po outpoint out a))
             else if type uc = UPDATE then
               (case load_auction db po output v of
                  Inl e \<Rightarrow> Inl e
                | Inr (out, a, v1) \<Rightarrow> store_flow v1 (connect_UPDATE E hgt po outpoint out a))
             else if type uc = TRANSFER then
               (case load_auction db po output v of
                  Inl e \<Rightarrow> Inl e
                | Inr (out, a, v1) \<Rightarrow> store_flow v1 (connect_TRANSFER E hgt po outpoint out a))
             else if above_MAX_COVENANT_TYPE (type uc) then Inr (Continue v)
             else Inl AssertionError))"

text \<open>
  One iteration of the loop over \<^verbatim>\<open>tx.outputs\<close>. \<open>stale_release\<close> is the body
  of \<^verbatim>\<open>if (height >= auction.renewal + rules.RENEWAL_WINDOW)\<close>, with the synthetic
  outpoint \<^verbatim>\<open>(i | 0x80000000) >>> 0\<close>. \<open>rollout_rejects\<close> is the test that
  makes a BID output \<^verbatim>\<open>return false\<close> on the main network:
  \<^verbatim>\<open>height < (nameHash[0] % 52) * rules.ROLLOUT_INTERVAL\<close>.
\<close>

definition stale_release :: "hash \<Rightarrow> nat \<Rightarrow> int \<Rightarrow> auction \<Rightarrow> error + auction" where
  "stale_release h i hgt a =
     (let po = Outpoint h (of_nat i OR 0x80000000) in
      if isNull (owner a) then Inl AssertionError
      else Inr (uncommit ((setOwner null_outpoint (addUndo po a))
                  \<lparr>height := hgt, renewal := Some hgt, bids := 0\<rparr>)))"

definition rollout_rejects :: "env \<Rightarrow> hash \<Rightarrow> int \<Rightarrow> bool" where
  "rollout_rejects E nh hgt =
     (network_type E = ''main'' \<and>
      (case nh of
         [] \<Rightarrow> False
       | b0 # _ \<Rightarrow> hgt < int (unat b0 mod 52) * ROLLOUT_INTERVAL E))"

definition connect_output :: "env \<Rightarrow> namedb \<Rightarrow> tx \<Rightarrow> int \<Rightarrow> nat \<Rightarrow> view \<Rightarrow> error + view flow" where
  "connect_output E db t hgt i v =
     (let out = outputs t ! i; c = covenant out in
      if type c = BID then
        (case item c 0 of
           None \<Rightarrow> Inl TypeError
         | Some nm \<Rightarrow>
             (let nh = digest E nm; outpoint = Outpoint (tx_hash t) (of_nat i) in
              if rollout_rejects E nh hgt then Inr (Return False v)
              else
                (case view_ensureAuction db nm nh hgt v of
                   Inl e \<Rightarrow> Inl e
                 | Inr (a, v1) \<Rightarrow>
                     (case (if hgt \<ge> num (renewal a) + RENEWAL_WINDOW E
                            then stale_release (tx_hash t) i hgt a else Inr a) of
                        Inl e \<Rightarrow> Inl e
                      | Inr a1 \<Rightarrow>
                          if auction_state E a1 hgt \<noteq> states_BIDDING
                          then Inr (Return False (put_auction a1 v1))
                          else Inr (Continue (put_auction (save (addBid outpoint a1)) v1))))))
      else Inr (Continue v))"

definition connectCovenants :: "env \<Rightarrow> namedb \<Rightarrow> tx \<Rightarrow> int \<Rightarrow> view \<Rightarrow> error + (bool \<times> view)" where
  "connectCovenants E db t hgt v =
     (if isCoinbase t then Inr (True, v)
      else
        (case for_each (connect_input E db t hgt) [0..<length (inputs t)] v of
           Inl e \<Rightarrow> Inl e
         | Inr (Return b v1) \<Rightarrow> Inr (b, v1)
         | Inr (Continue v1) \<Rightarrow>
             (case for_each (connect_output E db t hgt) [0..<length (outputs t)] v1 of
                Inl e \<Rightarrow> Inl e
              | Inr (Return b v2) \<Rightarrow> Inr (b, v2)
              | Inr (Continue v2) \<Rightarrow> Inr (True, v2))))"

subsection \<open>verifyBlock\<close>

fun verify_txs :: "env \<Rightarrow> namedb \<Rightarrow> int \<Rightarrow> tx list \<Rightarrow> view \<Rightarrow> error + (bool \<times> view)" where
  "verify_txs E db hgt [] v = Inr (True, v)"
| "verify_txs E db hgt (t # ts) v =
     (case connectCovenants E db t hgt v of
        Inl e \<Rightarrow> Inl e
      | Inr (ok, v1) \<Rightarrow> if \<not> ok then Inr (False, v1) else verify_txs E db hgt ts v1)"

text \<open>
  \<open>prev_height\<close> is \<^verbatim>\<open>prev.height\<close>. The loop starts at index 1, after the
  coinbase.
\<close>

definition verifyBlock :: "env \<Rightarrow> namedb \<Rightarrow> block \<Rightarrow> int \<Rightarrow> view \<Rightarrow> error + (bool \<times> view)" where
  "verifyBlock E db blk prev_height v =
     (let hgt = prev_height + 1 in
      if trieRoot blk \<noteq> getTrieRoot E db then Inr (False, v)
      else verify_txs E db hgt (drop 1 (txs blk)) v)"

subsection \<open>disconnectCovenants\<close>

text \<open>
  \<^verbatim>\<open>disconnectCovenants\<close> returns nothing: its result is the mutated view, or the
  exception. A loop body that cannot \<^verbatim>\<open>return\<close> is run by \<open>for_all\<close>.
\<close>

fun for_all :: "(nat \<Rightarrow> 's \<Rightarrow> error + 's) \<Rightarrow> nat list \<Rightarrow> 's \<Rightarrow> error + 's" where
  "for_all f [] s = Inr s"
| "for_all f (i # rest) s =
     (case f i s of
        Inl e \<Rightarrow> Inl e
      | Inr s1 \<Rightarrow> for_all f rest s1)"

definition store_auction :: "view \<Rightarrow> error + auction \<Rightarrow> error + view" where
  "store_auction v r =
     (case r of
        Inl e \<Rightarrow> Inl e
      | Inr a \<Rightarrow> Inr (put_auction a v))"

text \<open>
  One iteration of the loop over \<^verbatim>\<open>tx.outputs\<close>, from the last output to the
  first. \<^verbatim>\<open>auction.commit()\<close> is called without data.
\<close>

definition disconnect_output :: "env \<Rightarrow> namedb \<Rightarrow> tx \<Rightarrow> int \<Rightarrow> nat \<Rightarrow> view \<Rightarrow> error + view" where
  "disconnect_output E db t hgt i v =
     (let out = outputs t ! i; c = covenant out in
      if type c = BID then
        (let outpoint = Outpoint (tx_hash t) (of_nat i) in
         case item c 0 of
           None \<Rightarrow> Inl TypeError
         | Some nm \<Rightarrow>
             (case view_getAuction db (digest E nm) v of
                Inl e \<Rightarrow> Inl e
              | Inr (None, v1) \<Rightarrow> Inl AssertionError
              | Inr (Some a, v1) \<Rightarrow>
                  if height a \<noteq> hgt then Inl AssertionError
                  else if auction_state E a hgt \<noteq> states_BIDDING then Inl AssertionError
                  else
                    (let a1 = removeBid outpoint a in
                     if bids a1 = 0 then
                       (let po = Outpoint (tx_hash t) (of_nat i OR 0x80000000) in
                        case getUndo E db po of
                          Inl e \<Rightarrow> Inl e
                        | Inr (Some undo) \<Rightarrow>
                            Inr (put_auction
                              (save (commit None
                                 ((setOwner (owner undo) (removeUndo po a1))
                                    \<lparr>height := height undo, renewal := renewal undo,
                                     bids := bids undo\<rparr>))) v1)
                        | Inr None \<Rightarrow> Inr (put_auction (remove a1) v1))
                     else Inr (put_auction (save a1) v1))))
      else Inr v)"

text \<open>Prior covenant BID.\<close>

definition disconnect_BID ::
  "env \<Rightarrow> int \<Rightarrow> outpoint \<Rightarrow> txoutput \<Rightarrow> auction \<Rightarrow> error + auction" where
  "disconnect_BID E hgt outpoint out a =
     (if \<not> state_num (auction_state E a hgt) \<le> state_num states_REVEAL then Inl AssertionError
      else
        (case type (covenant out) of
           REVEAL \<Rightarrow> Inr (removeReveal outpoint a)
         | _ \<Rightarrow> Inl AssertionError))"

text \<open>
  Prior covenant REVEAL. In \<^verbatim>\<open>reveal <- release\<close> the undo record is read without
  a check; \<^verbatim>\<open>undo.height\<close> throws when it is \<^verbatim>\<open>null\<close>.
\<close>

definition disconnect_REVEAL ::
  "env \<Rightarrow> namedb \<Rightarrow> int \<Rightarrow> outpoint \<Rightarrow> outpoint \<Rightarrow> txoutput \<Rightarrow> txoutput \<Rightarrow> auction \<Rightarrow>
     error + auction" where
  "disconnect_REVEAL E db hgt po outpoint coin out a =
     (case type (covenant out) of
        REDEEM \<Rightarrow>
          if auction_state E a hgt \<noteq> states_CLOSED then Inl AssertionError
          else if owner a = outpoint then Inl AssertionError
          else Inr (addReveal po (amount coin) a)
      | UPDATE \<Rightarrow>
          if auction_state E a hgt \<noteq> states_CLOSED then Inl AssertionError
          else if owner a \<noteq> outpoint then Inl AssertionError
          else
            (let a1 = setOwner null_outpoint (addReveal po (amount coin) a) in
             Inr (save (uncommit (a1\<lparr>renewal := Some (height a1)\<rparr>))))
      | TRANSFER \<Rightarrow>
          if auction_state E a hgt \<noteq> states_CLOSED then Inl AssertionError
          else if owner a \<noteq> outpoint then Inl AssertionError
          else
            (let a1 = setOwner null_outpoint (addReveal po (amount coin) a) in
             Inr (save (a1\<lparr>renewal := Some (height a1)\<rparr>)))
      | RELEASE \<Rightarrow>
          if \<not> auction_isNull a then Inl AssertionError
          else
            (case getUndo E db po of
               Inl e \<Rightarrow> Inl e
             | Inr undo \<Rightarrow>
                 (let a1 = removeUndo po a in
                  if \<not> isNull (owner a1) then Inl AssertionError
                  else
                    (let a2 = addReveal po (amount coin) a1 in
                     case undo of
                       None \<Rightarrow> Inl TypeError
                     | Some u \<Rightarrow> Inr (save (a2\<lparr>height := height u, renewal := renewal u\<rparr>)))))
      | _ \<Rightarrow> Inl AssertionError)"

text \<open>
  Prior covenant UPDATE. In \<^verbatim>\<open>update <- update\<close> the renewal undo is read when the
  prior covenant \<^verbatim>\<open>uc\<close> has three items; \<^verbatim>\<open>getUndoRenewal\<close> returns
  \<^verbatim>\<open>null\<close> for a missing record, the assertion compares with \<^verbatim>\<open>-1\<close>, and the
  result is assigned to \<^verbatim>\<open>auction.renewal\<close>.
\<close>

definition disconnect_UPDATE ::
  "env \<Rightarrow> namedb \<Rightarrow> int \<Rightarrow> outpoint \<Rightarrow> outpoint \<Rightarrow> covenant \<Rightarrow> txoutput \<Rightarrow> auction \<Rightarrow>
     error + auction" where
  "disconnect_UPDATE E db hgt po outpoint uc out a =
     (if auction_state E a hgt \<noteq> states_CLOSED then Inl AssertionError
      else
        (case type (covenant out) of
           UPDATE \<Rightarrow>
             if owner a \<noteq> outpoint then Inl AssertionError
             else
               (let a1 = commit (item uc 1) (setOwner po a) in
                if length (items uc) = 3 then
                  (case getUndoRenewal db po of
                     Inl e \<Rightarrow> Inl e
                   | Inr undo \<Rightarrow>
                       if undo = Some (- 1) then Inl AssertionError
                       else Inr (save ((removeRenewal po a1)\<lparr>renewal := undo\<rparr>)))
                else Inr (save a1))
         | TRANSFER \<Rightarrow> Inr a
         | RELEASE \<Rightarrow>
             (case getUndo E db po of
                Inl e \<Rightarrow> Inl e
              | Inr None \<Rightarrow> Inl AssertionError
              | Inr (Some u) \<Rightarrow>
                  if \<not> auction_isNull a then Inl AssertionError
                  else Inr (save ((commit (item uc 1) (setOwner po (removeUndo po a)))
                              \<lparr>height := height u, renewal := renewal u\<rparr>)))
         | _ \<Rightarrow> Inl AssertionError))"

text \<open>
  One iteration of the loop over \<^verbatim>\<open>tx.inputs\<close>, from the last input to the first.
  There is no arm for a prior covenant TRANSFER.
\<close>

definition disconnect_input :: "env \<Rightarrow> namedb \<Rightarrow> tx \<Rightarrow> int \<Rightarrow> nat \<Rightarrow> view \<Rightarrow> error + view" where
  "disconnect_input E db t hgt i v =
     (let po = prevout (inputs t ! i) in
      case getOutput v po of
        None \<Rightarrow> Inl TypeError
      | Some coin \<Rightarrow>
          (let uc = covenant coin;
               output = (if i < length (outputs t) then Some (outputs t ! i) else None);
               outpoint = Outpoint (tx_hash t) (of_nat i)
           in
             if type uc = NONE then Inr v
             else if type uc = BID then
               (case load_auction db po output v of
                  Inl e \<Rightarrow> Inl e
                | Inr (out, a, v1) \<Rightarrow> store_auction v1 (disconnect_BID E hgt outpoint out a))
             else if type uc = REVEAL then
               (case load_auction db po output v of
                  Inl e \<Rightarrow> Inl e
                | Inr (out, a, v1) \<Rightarrow>
                    store_auction v1 (disconnect_REVEAL E db hgt po outpoint coin out a))
             else if type uc = UPDATE then
               (case load_auction db po output v of
                  Inl e \<Rightarrow> Inl e
                | Inr (out, a, v1) \<Rightarrow>
                    store_auction v1 (disconnect_UPDATE E db hgt po outpoint uc out a))
             else if above_MAX_COVENANT_TYPE (type uc) then Inr v
             else Inl AssertionError))"

definition disconnectCovenants :: "env \<Rightarrow> namedb \<Rightarrow> tx \<Rightarrow> int \<Rightarrow> view \<Rightarrow> error + view" where
  "disconnectCovenants E db t hgt v =
     (case for_all (disconnect_output E db t hgt) (rev [0..<length (outputs t)]) v of
        Inl e \<Rightarrow> Inl e
      | Inr v1 \<Rightarrow> for_all (disconnect_input E db t hgt) (rev [0..<length (inputs t)]) v1)"

section \<open>Example states\<close>

text \<open>
  A small chain used to run the engine on concrete inputs. The digest is the identity,
  the root of the trie reads the entry of the name \<open>[7]\<close>, bidding lasts five blocks
  and revealing five more, and the chain has entries at heights 38 and 39 (and 35, off
  the main chain).
\<close>

definition example_env :: env where
  "example_env =
     \<lparr>digest = (\<lambda>nm. nm),
      trie_hash = (\<lambda>m. case m [7] of None \<Rightarrow> [0] | Some d \<Rightarrow> 1 # d),
      network_type = ''regtest'',
      state_of = (\<lambda>start h. if h < start + 5 then states_BIDDING
                             else if h < start + 10 then states_REVEAL else states_CLOSED),
      COINBASE_MATURITY = 2,
      RENEWAL_PERIOD = 8,
      RENEWAL_WINDOW = 50,
      ROLLOUT_INTERVAL = 3,
      getEntry = (\<lambda>h. if h = [5] then Some \<lparr>entry_hash = [5], entry_height = 38\<rparr>
                        else if h = [6] then Some \<lparr>entry_hash = [6], entry_height = 39\<rparr>
                        else if h = [4] then Some \<lparr>entry_hash = [4], entry_height = 35\<rparr>
                        else None),
      isMainChain = (\<lambda>en. entry_hash en \<noteq> [4])\<rparr>"

definition example_coinbase :: tx where
  "example_coinbase = \<lparr>tx_hash = [0], isCoinbase = True, inputs = [], outputs = []\<rparr>"


text \<open>
  The name \<open>[7]\<close> with one bid, placed at height 16 by output 0 of transaction
  \<open>[1]\<close>, and the block at height 22 that reveals it.
\<close>

definition bid_db :: namedb where
  "bid_db =
     \<lparr>bucket =
        [(layout_a [7], RawAuction [7] null_outpoint 16 (Some 16) 1),
         (layout_b [7] [1] 0, Buf []),
         (layout_n [1] 0, Buf [7])],
      trie = []\<rparr>"

definition bid_coin :: txoutput where
  "bid_coin = \<lparr>amount = 1000, covenant = \<lparr>type = BID, items = [[7]]\<rparr>\<rparr>"

definition bid_view :: view where
  "bid_view = \<lparr>auctions = [], coins = [(Outpoint [1] 0, bid_coin)]\<rparr>"

definition bid_auction :: auction where
  "bid_auction =
     \<lparr>name = [7], nameHash = [7], owner = null_outpoint, height = 16, renewal = Some 16,
      bids = 1, ops = []\<rparr>"

definition reveal_out :: txoutput where
  "reveal_out = \<lparr>amount = 1000, covenant = \<lparr>type = REVEAL, items = [[7]]\<rparr>\<rparr>"

definition reveal_tx :: tx where
  "reveal_tx =
     \<lparr>tx_hash = [2], isCoinbase = False,
      inputs = [\<lparr>prevout = Outpoint [1] 0\<rparr>],
      outputs = [reveal_out]\<rparr>"

definition reveal_block :: block where
  "reveal_block = \<lparr>trieRoot = [0], txs = [example_coinbase, reveal_tx]\<rparr>"

definition reveal_pending :: auction where
  "reveal_pending =
     \<lparr>name = [7], nameHash = [7], owner = null_outpoint, height = 16, renewal = Some 16,
      bids = 0,
      ops = [REMOVE_BID (Outpoint [1] 0), ADD_REVEAL (Outpoint [2] 0) 1000, ADD_AUCTION]\<rparr>"

definition reveal_db :: namedb where
  "reveal_db =
     \<lparr>bucket =
        [(layout_a [7], RawAuction [7] null_outpoint 16 (Some 16) 0),
         (layout_r [7] [2] 0, fromU64 1000),
         (layout_n [2] 0, Buf [7])],
      trie = []\<rparr>"

text \<open>
  The name \<open>[7]\<close> with one revealed bid, and the block at height 20 in which the
  bidder makes the first update.
\<close>

definition revealed_db :: namedb where
  "revealed_db =
     \<lparr>bucket =
        [(layout_a [7], RawAuction [7] null_outpoint 0 (Some 0) 0),
         (layout_r [7] [1] 0, fromU64 1000),
         (layout_n [1] 0, Buf [7])],
      trie = []\<rparr>"

definition revealed_view :: view where
  "revealed_view = \<lparr>auctions = [], coins = [(Outpoint [1] 0, reveal_out)]\<rparr>"

definition revealed_auction :: auction where
  "revealed_auction =
     \<lparr>name = [7], nameHash = [7], owner = null_outpoint, height = 0, renewal = Some 0,
      bids = 0, ops = []\<rparr>"

definition first_update_out :: txoutput where
  "first_update_out = \<lparr>amount = 1000, covenant = \<lparr>type = UPDATE, items = [[7], [9]]\<rparr>\<rparr>"

definition first_update_tx :: tx where
  "first_update_tx =
     \<lparr>tx_hash = [2], isCoinbase = False,
      inputs = [\<lparr>prevout = Outpoint [1] 0\<rparr>],
      outputs = [first_update_out]\<rparr>"

definition first_update_block :: block where
  "first_update_block = \<lparr>trieRoot = [0], txs = [example_coinbase, first_update_tx]\<rparr>"

definition first_update_pending :: auction where
  "first_update_pending =
     \<lparr>name = [7], nameHash = [7], owner = Outpoint [2] 0, height = 0, renewal = Some 20,
      bids = 0,
      ops = [REMOVE_REVEAL (Outpoint [1] 0), ADD_OWNER (Outpoint [2] 0), COMMIT (Some [9]),
             ADD_AUCTION]\<rparr>"

text \<open>The name \<open>[7]\<close> owned by output 0 of transaction \<open>[2]\<close> since height 20.\<close>

definition owned_db :: namedb where
  "owned_db =
     \<lparr>bucket =
        [(layout_a [7], RawAuction [7] (Outpoint [2] 0) 0 (Some 20) 0),
         (layout_n [2] 0, Buf [7])],
      trie = [([7], [9])]\<rparr>"

definition owned_auction :: auction where
  "owned_auction =
     \<lparr>name = [7], nameHash = [7], owner = Outpoint [2] 0, height = 0, renewal = Some 20,
      bids = 0, ops = []\<rparr>"

definition owned_view :: view where
  "owned_view = \<lparr>auctions = [], coins = [(Outpoint [2] 0, first_update_out)]\<rparr>"

text \<open>
  A renewal at height 40 against the block \<open>[5]\<close> of height 38, and the same update
  against the block \<open>[6]\<close> of height 39.
\<close>

definition renew_out :: txoutput where
  "renew_out = \<lparr>amount = 1000, covenant = \<lparr>type = UPDATE, items = [[7], [10], [5]]\<rparr>\<rparr>"

definition renew_tx :: tx where
  "renew_tx =
     \<lparr>tx_hash = [3], isCoinbase = False,
      inputs = [\<lparr>prevout = Outpoint [2] 0\<rparr>],
      outputs = [renew_out]\<rparr>"

definition immature_out :: txoutput where
  "immature_out = \<lparr>amount = 1000, covenant = \<lparr>type = UPDATE, items = [[7], [10], [6]]\<rparr>\<rparr>"

definition immature_tx :: tx where
  "immature_tx =
     \<lparr>tx_hash = [3], isCoinbase = False,
      inputs = [\<lparr>prevout = Outpoint [2] 0\<rparr>],
      outputs = [immature_out]\<rparr>"

definition renew_pending :: auction where
  "renew_pending =
     \<lparr>name = [7], nameHash = [7], owner = Outpoint [3] 0, height = 0, renewal = Some 40,
      bids = 0,
      ops = [ADD_OWNER (Outpoint [3] 0), COMMIT (Some [10]),
             ADD_RENEWAL (Outpoint [2] 0) (Some 20), ADD_AUCTION]\<rparr>"

text \<open>
  The state after that renewal, and a plain update (two items) at height 41 that spends
  the renewing output, whose covenant has three items.
\<close>

definition renewed_db :: namedb where
  "renewed_db =
     \<lparr>bucket =
        [(layout_a [7], RawAuction [7] (Outpoint [3] 0) 0 (Some 40) 0),
         (layout_n [2] 0, Buf [7]),
         (layout_n [3] 0, Buf [7]),
         (layout_k [2] 0, fromU32 20)],
      trie = [([7], [10])]\<rparr>"

definition renewed_view :: view where
  "renewed_view = \<lparr>auctions = [], coins = [(Outpoint [3] 0, renew_out)]\<rparr>"

definition renewed_auction :: auction where
  "renewed_auction =
     \<lparr>name = [7], nameHash = [7], owner = Outpoint [3] 0, height = 0, renewal = Some 40,
      bids = 0, ops = []\<rparr>"

definition plain_update_out :: txoutput where
  "plain_update_out = \<lparr>amount = 1000, covenant = \<lparr>type = UPDATE, items = [[7], [11]]\<rparr>\<rparr>"

definition plain_update_tx :: tx where
  "plain_update_tx =
     \<lparr>tx_hash = [4], isCoinbase = False,
      inputs = [\<lparr>prevout = Outpoint [3] 0\<rparr>],
      outputs = [plain_update_out]\<rparr>"

definition plain_update_pending :: auction where
  "plain_update_pending =
     \<lparr>name = [7], nameHash = [7], owner = Outpoint [4] 0, height = 0, renewal = Some 40,
      bids = 0,
      ops = [ADD_OWNER (Outpoint [4] 0), COMMIT (Some [11]), ADD_AUCTION]\<rparr>"

definition plain_update_db :: namedb where
  "plain_update_db =
     \<lparr>bucket =
        [(layout_a [7], RawAuction [7] (Outpoint [4] 0) 0 (Some 40) 0),
         (layout_n [2] 0, Buf [7]),
         (layout_n [3] 0, Buf [7]),
         (layout_k [2] 0, fromU32 20),
         (layout_n [4] 0, Buf [7])],
      trie = [([7], [11])]\<rparr>"

definition plain_update_auction :: auction where
  "plain_update_auction =
     \<lparr>name = [7], nameHash = [7], owner = Outpoint [4] 0, height = 0, renewal = Some 40,
      bids = 0, ops = []\<rparr>"

definition plain_update_undone :: auction where
  "plain_update_undone =
     \<lparr>name = [7], nameHash = [7], owner = Outpoint [3] 0, height = 0, renewal = None,
      bids = 0,
      ops = [ADD_OWNER (Outpoint [3] 0), COMMIT (Some [10]), REMOVE_RENEWAL (Outpoint [3] 0),
             ADD_AUCTION]\<rparr>"

text \<open>
  A name that is never won: on the empty database, the transaction \<open>open_tx\<close> at
  height 16 opens the auction of the name with one bid, and the bid is never revealed.
\<close>

definition empty_db :: namedb where
  "empty_db = \<lparr>bucket = [], trie = []\<rparr>"

definition empty_view :: view where
  "empty_view = \<lparr>auctions = [], coins = []\<rparr>"

definition open_tx :: tx where
  "open_tx = \<lparr>tx_hash = [1], isCoinbase = False, inputs = [], outputs = [bid_coin]\<rparr>"

definition open_pending :: auction where
  "open_pending =
     \<lparr>name = [7], nameHash = [7], owner = null_outpoint, height = 16, renewal = Some 16,
      bids = 1, ops = [ADD_BID (Outpoint [1] 0), ADD_AUCTION]\<rparr>"

definition opened_db :: namedb where
  "opened_db =
     \<lparr>bucket =
        [(layout_b [7] [1] 0, Buf []),
         (layout_n [1] 0, Buf [7]),
         (layout_a [7], RawAuction [7] null_outpoint 16 (Some 16) 1)],
      trie = []\<rparr>"

definition unowned_auction :: auction where
  "unowned_auction = open_pending\<lparr>ops := []\<rparr>"

text \<open>
  A bid at height 70 on a name that has not been renewed for fifty blocks: the owned
  name, and the name that was never won.
\<close>

definition rebid_out :: txoutput where
  "rebid_out = \<lparr>amount = 5, covenant = \<lparr>type = BID, items = [[7]]\<rparr>\<rparr>"

definition rebid_tx :: tx where
  "rebid_tx = \<lparr>tx_hash = [5], isCoinbase = False, inputs = [], outputs = [rebid_out]\<rparr>"

definition rebid_reset :: auction where
  "rebid_reset =
     \<lparr>name = [7], nameHash = [7], owner = null_outpoint, height = 70, renewal = Some 70,
      bids = 1,
      ops = [ADD_UNDO (Outpoint [5] 0x80000000) (RawAuction [7] (Outpoint [2] 0) 0 (Some 20) 0),
             ADD_OWNER null_outpoint, UNCOMMIT, ADD_BID (Outpoint [5] 0), ADD_AUCTION]\<rparr>"

text \<open>A transaction with one input and no output, and a coin of an unknown covenant type.\<close>

definition orphan_tx :: tx where
  "orphan_tx =
     \<lparr>tx_hash = [6], isCoinbase = False, inputs = [\<lparr>prevout = Outpoint [1] 0\<rparr>], outputs = []\<rparr>"

definition unknown_coin :: txoutput where
  "unknown_coin = \<lparr>amount = 1000, covenant = \<lparr>type = UNKNOWN 9, items = []\<rparr>\<rparr>"

definition unknown_view :: view where
  "unknown_view = \<lparr>auctions = [], coins = [(Outpoint [1] 0, unknown_coin)]\<rparr>"

section \<open>Properties\<close>

subsection \<open>The range scan and the loop of pickWinner\<close>


lemma set_map_filter_r_entry:
  "set (List.map_filter (r_entry nh) b) = {((h, i), v). (layout_r nh h i, v) \<in> set b}"
proof -
  have "\<And>kv h i v. r_entry nh kv = Some ((h, i), v) \<longleftrightarrow> kv = (layout_r nh h i, v)"
    subgoal for kv h i v by (cases "(nh, kv)" rule: r_entry.cases) auto
    done
  then show ?thesis
    by (auto simp: List.map_filter_def image_iff) force
qed


lemma iterator_r_set:
  "distinct (map fst b) \<Longrightarrow>
   ((h, i), v) \<in> set (iterator_r b nh) \<longleftrightarrow> get b (layout_r nh h i) = Some v"
  by (simp add: iterator_r_def get_def set_map_filter_r_entry)





lemma pick_each_error:
  "(k, v) \<in> set xs \<Longrightarrow> toU64 v = Inl e \<Longrightarrow> \<exists>e'. pick_each xs s = Inl e'"
proof (induction xs s rule: pick_each.induct)
  case (1 s)
  then show ?case by simp
next
  case (2 h i v0 rest best winner)
  show ?case
  proof (cases "toU64 v0")
    case (Inl e0)
    then show ?thesis by simp
  next
    case (Inr bid)
    with 2 have "(k, v) \<in> set rest" by auto
    with 2 Inr show ?thesis by (cases "bid \<ge> best") auto
  qed
qed

subsection \<open>Little-endian helpers\<close>

lemma length_le_encode: "length (le_encode n v) = n"
  by (induction n arbitrary: v) auto

lemma le_decode_le_encode: "le_decode (le_encode n v) = v mod 256 ^ n"
proof (induction n arbitrary: v)
  case 0
  then show ?case by simp
next
  case (Suc n)
  have "unat (of_nat (v mod 256) :: 8 word) = v mod 256"
    by (simp add: unat_of_nat)
  with Suc show ?case
    by (simp add: mod_mult2_eq)
qed

lemma le_decode_append: "le_decode (xs @ ys) = le_decode xs + 256 ^ length xs * le_decode ys"
  by (induction xs) (auto simp: algebra_simps)

lemma le_decode_less: "le_decode xs < 256 ^ length xs"
proof (induction xs)
  case Nil
  then show ?case by simp
next
  case (Cons b bs)
  have "unat b < 256" using unsigned_less [of b, where ?'a = nat] by simp
  with Cons show ?case by simp
qed

lemma readU64_number:
  assumes "length d = 8"
  shows "readU64 d = (if le_decode d < 2 ^ 53 then Inr (le_decode d) else Inl EncodingError)"
proof -
  define lo where "lo = le_decode (take 4 d)"
  define hi where "hi = le_decode (take 4 (drop 4 d))"
  from assms have t: "take 4 (drop 4 d) = drop 4 d" by simp
  have "le_decode d = le_decode (take 4 d @ drop 4 d)" by simp
  also have "\<dots> = lo + 2 ^ 32 * hi"
    unfolding le_decode_append using assms by (simp add: lo_def hi_def)
  finally have n: "le_decode d = lo + 2 ^ 32 * hi" .
  have "lo < 256 ^ length (take 4 d)" unfolding lo_def by (rule le_decode_less)
  with assms have l: "lo < 2 ^ 32" by simp
  have "hi < 2 ^ 21 \<longleftrightarrow> lo + 2 ^ 32 * hi < 2 ^ 53" using l by simp arith
  with n show ?thesis
    by (simp add: readU64_def lo_def [symmetric] hi_def [symmetric] Let_def algebra_simps)
qed

lemma toU64_Buf:
  "length d = 8 \<Longrightarrow>
   toU64 (Buf d) = (if le_decode d < 2 ^ 53 then Inr (le_decode d) else Inl EncodingError)"
  by (simp add: readU64_number)

lemma toU64_fromU64: "v < 2 ^ 53 \<Longrightarrow> toU64 (fromU64 v) = Inr v"
proof -
  assume v: "v < 2 ^ 53"
  have "(256::nat) ^ 8 = 2 ^ 64" by simp
  moreover have "(2::nat) ^ 53 < 2 ^ 64" by simp
  with v have "v < 2 ^ 64" by linarith
  ultimately show ?thesis
    using v by (simp add: fromU64_def toU64_Buf length_le_encode le_decode_le_encode del: toU64.simps)
qed

lemma toU64_rejects_two_to_the_53:
  "toU64 (Buf [0, 0, 0, 0, 0, 0, 0x20, 0]) = Inl EncodingError"
  by (simp add: readU64_def)

lemma toU32_fromU32: "toU32 (fromU32 v) = Inr (v mod 2 ^ 32)"
proof -
  have "(256::nat) ^ 4 = 2 ^ 32" by simp
  moreover have "nat (v mod 2 ^ 32) < 2 ^ 32"
    by (simp add: nat_less_iff)
  ultimately show ?thesis
    by (simp add: fromU32_def length_le_encode le_decode_le_encode)
qed

subsection \<open>The winner of an auction\<close>

text \<open>
  A reveal value that \<^verbatim>\<open>toU64\<close> does not read (a buffer of another length, or
  a number from \<open>2 ^ 53\<close> on) makes the scan throw.
\<close>

lemma pickWinner_unreadable_reveal:
  assumes "distinct (map fst (bucket db))"
    and "get (bucket db) (layout_r nh h i) = Some v"
    and "toU64 v = Inl e"
  shows "\<exists>e'. pickWinner db nh = Inl e'"
proof -
  from assms(1,2) have "((h, i), v) \<in> set (iterator_r (bucket db) nh)"
    by (simp add: iterator_r_set)
  from pick_each_error [OF this assms(3)] obtain e' where
    "pick_each (iterator_r (bucket db) nh) (0, None) = Inl e'" by blast
  then show ?thesis by (simp add: pickWinner_def)
qed




subsection \<open>The update arm of connectCovenants\<close>

lemma update_case_UPDATE_eq_break:
  "update_case_UPDATE E hgt po outpoint c a = update_case_UPDATE_break E hgt po outpoint c a"
  by (simp add: update_case_UPDATE_def update_case_UPDATE_break_def update_case_TRANSFER_def
      Let_def split: option.splits)

text \<open>
  Claim C9. The \<^verbatim>\<open>update -> update\<close> case, which falls through into the
  \<^verbatim>\<open>update -> transfer\<close> case, behaves as the variant that stops with a
  \<^verbatim>\<open>break\<close>: for every input and output the two give the same return value, the
  same auction and the same op log, both for the case alone and for the whole arm of a
  prior covenant UPDATE.
\<close>

theorem update_update_fallthrough:
  "update_case_UPDATE E hgt po outpoint c a = update_case_UPDATE_break E hgt po outpoint c a \<and>
   connect_UPDATE E hgt po outpoint out a = connect_UPDATE_break E hgt po outpoint out a"
  by (simp add: connect_UPDATE_def connect_UPDATE_break_def update_case_UPDATE_eq_break
      split: covenant_type.splits)

lemma update_case_UPDATE_renewal:
  assumes "length (items c) = 3"
  shows "update_case_UPDATE E hgt po outpoint c a =
     (if (\<exists>en. getEntry E (items c ! 2) = Some en \<and> isMainChain E en \<and>
             entry_height en \<le> hgt - COINBASE_MATURITY E \<and>
             entry_height en \<ge> hgt - RENEWAL_PERIOD E)
      then Inr (Continue (save (addRenewal po hgt (commit (item c 1) (setOwner outpoint a)))))
      else Inr (Return False (commit (item c 1) (setOwner outpoint a))))"
  using assms
  by (auto simp: update_case_UPDATE_def update_case_TRANSFER_def Let_def split: option.splits)

lemma for_each_append:
  "for_each f (xs @ ys) s =
     (case for_each f xs s of
        Inl e \<Rightarrow> Inl e
      | Inr (Return b s1) \<Rightarrow> Inr (Return b s1)
      | Inr (Continue s1) \<Rightarrow> for_each f ys s1)"
  by (induction xs arbitrary: s) (auto split: sum.splits flow.splits)

lemma upt_split:
  assumes "i < n"
  shows "[0..<n] = [0..<i] @ i # [Suc i..<n]"
proof -
  have "[0..<i + (n - i)] = [0..<i] @ [i..<i + (n - i)]"
    by (rule upt_add_eq_append) simp
  moreover have "i + (n - i) = n"
    using assms by simp
  moreover have "[i..<n] = i # [Suc i..<n]"
    using assms by (rule upt_conv_Cons)
  ultimately show ?thesis
    by simp
qed

lemma for_each_stops_at_Return:
  assumes "for_each f [0..<i] s0 = Inr (Continue s)" and "i < n" and "f i s = Inr (Return b s1)"
  shows "for_each f [0..<n] s0 = Inr (Return b s1)"
proof -
  have "for_each f ([0..<i] @ i # [Suc i..<n]) s0 = Inr (Return b s1)"
    using assms(1,3) by (simp add: for_each_append)
  then show ?thesis
    by (simp only: upt_split [OF assms(2), symmetric])
qed

lemma for_each_stops_at_error:
  assumes "for_each f [0..<i] s0 = Inr (Continue s)" and "i < n" and "f i s = Inl e"
  shows "for_each f [0..<n] s0 = Inl e"
proof -
  have "for_each f ([0..<i] @ i # [Suc i..<n]) s0 = Inl e"
    using assms(1,3) by (simp add: for_each_append)
  then show ?thesis
    by (simp only: upt_split [OF assms(2), symmetric])
qed

text \<open>
  Claim C8. An input \<open>i\<close> that spends the owner's UPDATE output of a closed auction
  into an UPDATE output with a third item is accepted by \<^verbatim>\<open>connectCovenants\<close> (the
  loop goes on with the renewal recorded) if and only if the referenced block entry
  exists, is on the main chain, and has a height at most
  \<^verbatim>\<open>height - COINBASE_MATURITY\<close> and at least \<^verbatim>\<open>height - RENEWAL_PERIOD\<close>,
  both bounds inclusive; when a condition fails, \<^verbatim>\<open>connectCovenants\<close> returns
  \<^verbatim>\<open>false\<close>. The inputs before \<open>i\<close> are accepted, from the view \<open>v0\<close>
  to the view \<open>v\<close>.
\<close>

theorem renewal_accepted_iff:
  assumes "\<not> isCoinbase t"
    and "i < length (inputs t)" and "i < length (outputs t)"
    and "for_each (connect_input E db t hgt) [0..<i] v0 = Inr (Continue v)"
    and "getOutput v (prevout (inputs t ! i)) = Some coin"
    and "type (covenant coin) = UPDATE"
    and "type (covenant (outputs t ! i)) = UPDATE"
    and "length (items (covenant (outputs t ! i))) = 3"
    and "load_auction db (prevout (inputs t ! i)) (Some (outputs t ! i)) v =
           Inr (outputs t ! i, a, v1)"
    and "auction_state E a hgt = states_CLOSED"
    and "owner a = prevout (inputs t ! i)"
  shows "connect_input E db t hgt i v =
           (if (\<exists>en. getEntry E (items (covenant (outputs t ! i)) ! 2) = Some en \<and>
                   isMainChain E en \<and> entry_height en \<le> hgt - COINBASE_MATURITY E \<and>
                   entry_height en \<ge> hgt - RENEWAL_PERIOD E)
            then Inr (Continue (put_auction
                   (save (addRenewal (prevout (inputs t ! i)) hgt
                      (commit (item (covenant (outputs t ! i)) 1)
                         (setOwner (Outpoint (tx_hash t) (of_nat i)) a)))) v1))
            else Inr (Return False (put_auction
                   (commit (item (covenant (outputs t ! i)) 1)
                      (setOwner (Outpoint (tx_hash t) (of_nat i)) a)) v1))) \<and>
         (\<not> (\<exists>en. getEntry E (items (covenant (outputs t ! i)) ! 2) = Some en \<and>
                   isMainChain E en \<and> entry_height en \<le> hgt - COINBASE_MATURITY E \<and>
                   entry_height en \<ge> hgt - RENEWAL_PERIOD E) \<longrightarrow>
          connectCovenants E db t hgt v0 =
            Inr (False, put_auction
                   (commit (item (covenant (outputs t ! i)) 1)
                      (setOwner (Outpoint (tx_hash t) (of_nat i)) a)) v1))"
proof -
  define ok where "ok \<longleftrightarrow> (\<exists>en. getEntry E (items (covenant (outputs t ! i)) ! 2) = Some en \<and>
     isMainChain E en \<and> entry_height en \<le> hgt - COINBASE_MATURITY E \<and>
     entry_height en \<ge> hgt - RENEWAL_PERIOD E)"
  define a1 where "a1 = commit (item (covenant (outputs t ! i)) 1)
     (setOwner (Outpoint (tx_hash t) (of_nat i)) a)"
  have arm: "connect_UPDATE E hgt (prevout (inputs t ! i)) (Outpoint (tx_hash t) (of_nat i))
        (outputs t ! i) a =
      (if ok then Inr (Continue (save (addRenewal (prevout (inputs t ! i)) hgt a1)))
       else Inr (Return False a1))"
    unfolding ok_def a1_def using assms(7,8,10,11)
    by (simp add: connect_UPDATE_def update_case_UPDATE_renewal)
  have step: "connect_input E db t hgt i v =
      (if ok then Inr (Continue (put_auction (save (addRenewal (prevout (inputs t ! i)) hgt a1)) v1))
       else Inr (Return False (put_auction a1 v1)))"
    using assms(3,5,6,9) arm
    by (simp add: connect_input_def Let_def store_flow_def)
  have "connectCovenants E db t hgt v0 = Inr (False, put_auction a1 v1)" if "\<not> ok"
  proof -
    from step that have "connect_input E db t hgt i v = Inr (Return False (put_auction a1 v1))"
      by simp
    from for_each_stops_at_Return [OF assms(4) assms(2) this]
    show ?thesis
      using assms(1) by (simp add: connectCovenants_def)
  qed
  with step show ?thesis
    unfolding ok_def a1_def by blast
qed

subsection \<open>The op log and its replay\<close>

lemmas auction_ops =
  addBid_def removeBid_def addReveal_def removeReveal_def setOwner_def setNull_def
  auction_isNull_def commit_def uncommit_def addUndo_def removeUndo_def addRenewal_def
  removeRenewal_def save_def remove_def toRaw_def

lemma save_ops_append:
  "save_ops E a (xs @ ys) db =
     (case save_ops E a xs db of Inl e \<Rightarrow> Inl e | Inr db1 \<Rightarrow> save_ops E a ys db1)"
  by (induction xs arbitrary: db) (auto split: sum.splits)

lemma get_put: "get (put k v b) k' = (if k' = k then Some v else get b k')"
  by (simp add: get_def put_def update_conv')

lemma get_del: "get (del k b) k' = (if k' = k then None else get b k')"
  by (simp add: get_def del_def delete_conv')

lemma distinct_put: "distinct (map fst b) \<Longrightarrow> distinct (map fst (put k v b))"
  by (simp add: put_def distinct_update)

lemma distinct_del: "distinct (map fst b) \<Longrightarrow> distinct (map fst (del k b))"
  by (simp add: del_def distinct_delete)

text \<open>
  The flush keeps the bucket well-formed: one value for a key, and reveal values that are
  8-byte buffers.
\<close>

lemma save_op_keeps_bucket:
  assumes "save_op E a x db = Inr db1"
    and "distinct (map fst (bucket db))"
    and "\<forall>nh h i v. get (bucket db) (layout_r nh h i) = Some v \<longrightarrow>
           (\<exists>d. v = Buf d \<and> length d = 8)"
  shows "distinct (map fst (bucket db1)) \<and>
         (\<forall>nh h i v. get (bucket db1) (layout_r nh h i) = Some v \<longrightarrow>
            (\<exists>d. v = Buf d \<and> length d = 8))"
proof (cases x)
  case (COMMIT d)
  with assms show ?thesis by (cases d) auto
next
  case (ADD_REVEAL p v)
  with assms show ?thesis
    by (auto simp: get_put distinct_put fromU64_def length_le_encode split: if_splits)
qed (use assms in \<open>auto simp: get_put get_del distinct_put distinct_del split: if_splits\<close>)

lemma save_ops_keeps_bucket:
  assumes "save_ops E a xs db = Inr db1"
    and "distinct (map fst (bucket db))"
    and "\<forall>nh h i v. get (bucket db) (layout_r nh h i) = Some v \<longrightarrow>
           (\<exists>d. v = Buf d \<and> length d = 8)"
  shows "distinct (map fst (bucket db1)) \<and>
         (\<forall>nh h i v. get (bucket db1) (layout_r nh h i) = Some v \<longrightarrow>
            (\<exists>d. v = Buf d \<and> length d = 8))"
  using assms
proof (induction xs arbitrary: db)
  case Nil
  then show ?case by simp
next
  case (Cons x xs)
  from Cons.prems(1) obtain db2 where s: "save_op E a x db = Inr db2"
    and r: "save_ops E a xs db2 = Inr db1"
    by (auto split: sum.splits)
  from save_op_keeps_bucket [OF s Cons.prems(2,3)] Cons.IH [OF r] show ?case by blast
qed

lemma save_auctions_keeps_bucket:
  assumes "save_auctions E as db = Inr (db1, as1)"
    and "distinct (map fst (bucket db))"
    and "\<forall>nh h i v. get (bucket db) (layout_r nh h i) = Some v \<longrightarrow>
           (\<exists>d. v = Buf d \<and> length d = 8)"
  shows "distinct (map fst (bucket db1)) \<and>
         (\<forall>nh h i v. get (bucket db1) (layout_r nh h i) = Some v \<longrightarrow>
            (\<exists>d. v = Buf d \<and> length d = 8))"
  using assms
proof (induction as arbitrary: db as1)
  case Nil
  then show ?case by simp
next
  case (Cons na as)
  obtain nh a where na: "na = (nh, a)" by (cases na) auto
  from Cons.prems(1) na obtain db2 a2 rest where s: "saveAuction E a db = Inr (db2, a2)"
    and r: "save_auctions E as db2 = Inr (db1, rest)"
    by (auto split: sum.splits prod.splits)
  from s have "save_ops E a (ops a) db = Inr db2"
    by (auto simp: saveAuction_def split: sum.splits)
  from save_ops_keeps_bucket [OF this Cons.prems(2,3)] Cons.IH [OF r] show ?case by blast
qed

lemma saveView_keeps_bucket:
  assumes "saveView E v db = Inr (db1, v1)"
    and "distinct (map fst (bucket db))"
    and "\<forall>nh h i v. get (bucket db) (layout_r nh h i) = Some v \<longrightarrow>
           (\<exists>d. v = Buf d \<and> length d = 8)"
  shows "distinct (map fst (bucket db1)) \<and>
         (\<forall>nh h i v. get (bucket db1) (layout_r nh h i) = Some v \<longrightarrow>
            (\<exists>d. v = Buf d \<and> length d = 8))"
proof -
  from assms(1) obtain as1 where "save_auctions E (auctions v) db = Inr (db1, as1)"
    by (auto simp: saveView_def split: sum.splits prod.splits)
  from save_auctions_keeps_bucket [OF this assms(2,3)] show ?thesis .
qed

subsection \<open>The trie root checked by verifyBlock\<close>

text \<open>
  Claim C2, as amended. For every block accepted by \<^verbatim>\<open>verifyBlock\<close>, the trie
  root committed in the block's header equals \<^verbatim>\<open>getTrieRoot()\<close> of the
  database as it is when \<^verbatim>\<open>verifyBlock\<close> is called, before the covenant
  transitions of the block are applied and flushed: the comparison is against the
  pre-block root.
\<close>

theorem verifyBlock_checks_prior_root:
  "verifyBlock E db blk prev_height v = Inr (True, v1) \<Longrightarrow> trieRoot blk = getTrieRoot E db"
  by (auto simp: verifyBlock_def Let_def split: if_splits)

subsection \<open>Renewal\<close>

text \<open>
  Claim C3. For every \<^verbatim>\<open>update -> update\<close> transition of a closed auction by its
  owner, whose covenant carries a third item and whose renewal checks pass,
  \<^verbatim>\<open>connectCovenants\<close> sets \<^verbatim>\<open>auction.renewal\<close> to the current height
  and logs the renewal height the auction had before the transition for the prevout;
  when the log is replayed, \<^verbatim>\<open>saveAuction\<close> stores that prior height under
  \<^verbatim>\<open>k[prevout]\<close> as a little-endian u32.
\<close>

theorem renewal_records_prior_height:
  assumes "auction_state E a hgt = states_CLOSED"
    and "po = owner a"
    and "type (covenant out) = UPDATE"
    and "length (items (covenant out)) = 3"
    and "getEntry E (items (covenant out) ! 2) = Some en"
    and "isMainChain E en"
    and "entry_height en \<le> hgt - COINBASE_MATURITY E"
    and "hgt - RENEWAL_PERIOD E \<le> entry_height en"
  shows "\<exists>a1. connect_UPDATE E hgt po outpoint out a = Inr (Continue a1) \<and>
           renewal a1 = Some hgt \<and>
           ops a1 = ops a @ [ADD_OWNER outpoint, COMMIT (Some (items (covenant out) ! 1)),
                             ADD_RENEWAL po (renewal a), ADD_AUCTION] \<and>
           (\<forall>db db1. save_ops E a1 (ops a) db = Inr db1 \<longrightarrow>
              (\<exists>db2. saveAuction E a1 db = Inr (db2, a1\<lparr>ops := []\<rparr>) \<and>
                 get (bucket db2) (layout_k (hash po) (index po)) = Some (fromU32 (num (renewal a))) \<and>
                 toU32 (fromU32 (num (renewal a))) = Inr (num (renewal a) mod 2 ^ 32)))"
proof -
  define a1 where "a1 = save (addRenewal po hgt (commit (item (covenant out) 1) (setOwner outpoint a)))"
  have ok: "\<exists>en. getEntry E (items (covenant out) ! 2) = Some en \<and> isMainChain E en \<and>
             entry_height en \<le> hgt - COINBASE_MATURITY E \<and>
             entry_height en \<ge> hgt - RENEWAL_PERIOD E"
    using assms(5-8) by blast
  have run: "connect_UPDATE E hgt po outpoint out a = Inr (Continue a1)"
    using assms(1-4) ok
    by (simp add: connect_UPDATE_def update_case_UPDATE_renewal a1_def)
  have it: "item (covenant out) 1 = Some (items (covenant out) ! 1)"
    using assms(4) by (simp add: item_def)
  have ren: "renewal a1 = Some hgt"
    by (simp add: a1_def auction_ops)
  have log: "ops a1 = ops a @ [ADD_OWNER outpoint, COMMIT (Some (items (covenant out) ! 1)),
                             ADD_RENEWAL po (renewal a), ADD_AUCTION]"
    using it by (simp add: a1_def auction_ops)
  have flush: "\<exists>db2. saveAuction E a1 db = Inr (db2, a1\<lparr>ops := []\<rparr>) \<and>
        get (bucket db2) (layout_k (hash po) (index po)) = Some (fromU32 (num (renewal a)))"
    if "save_ops E a1 (ops a) db = Inr db1" for db db1
    using that
    by (simp add: saveAuction_def log save_ops_append get_put)
  show ?thesis
    using run ren log flush toU32_fromU32 by blast
qed

subsection \<open>A bid on a name that was not renewed\<close>

text \<open>
  The stale branch of the loop over the outputs, on every state that reaches it. For an
  output \<open>i\<close> whose covenant is BID, that passes the rollout check, on an auction
  with \<^verbatim>\<open>height >= auction.renewal + RENEWAL_WINDOW\<close>: when the auction has an
  owner, the engine records an undo snapshot of the auction keyed by the synthetic
  outpoint \<^verbatim>\<open>(tx_hash, i | 0x80000000)\<close>, sets the owner to null, sets
  \<^verbatim>\<open>auction.height\<close> and \<^verbatim>\<open>auction.renewal\<close> to the current height, sets
  \<^verbatim>\<open>bids\<close> to 0 and logs the removal of the trie entry, before it requires the
  BIDDING phase and adds the bid; when the owner is null,
  \<^verbatim>\<open>assert(!auction.owner.isNull())\<close> fails and nothing is reset.
\<close>

lemma stale_bid_resets_owned_auction:
  assumes "i < length (outputs t)"
    and "type (covenant (outputs t ! i)) = BID"
    and "item (covenant (outputs t ! i)) 0 = Some nm"
    and "\<not> rollout_rejects E (digest E nm) hgt"
    and "view_ensureAuction db nm (digest E nm) hgt v = Inr (a, v1)"
    and "hgt \<ge> num (renewal a) + RENEWAL_WINDOW E"
  shows "connect_output E db t hgt i v =
     (if isNull (owner a) then Inl AssertionError
      else
        (let a1 = a\<lparr>owner := null_outpoint, height := hgt, renewal := Some hgt, bids := 0,
                     ops := ops a @ [ADD_UNDO (Outpoint (tx_hash t) (of_nat i OR 0x80000000)) (toRaw a),
                                     ADD_OWNER null_outpoint, UNCOMMIT]\<rparr>
         in if auction_state E a1 hgt \<noteq> states_BIDDING then Inr (Return False (put_auction a1 v1))
            else Inr (Continue (put_auction
                   (a1\<lparr>bids := 1, ops := ops a1 @ [ADD_BID (Outpoint (tx_hash t) (of_nat i)), ADD_AUCTION]\<rparr>)
                   v1))))"
proof -
  define a1 where "a1 = a\<lparr>owner := null_outpoint, height := hgt, renewal := Some hgt, bids := 0,
                     ops := ops a @ [ADD_UNDO (Outpoint (tx_hash t) (of_nat i OR 0x80000000)) (toRaw a),
                                     ADD_OWNER null_outpoint, UNCOMMIT]\<rparr>"
  have stale: "stale_release (tx_hash t) i hgt a =
      (if isNull (owner a) then Inl AssertionError else Inr a1)"
    by (simp add: stale_release_def a1_def auction_ops Let_def)
  have bid: "save (addBid (Outpoint (tx_hash t) (of_nat i)) a1) =
      a1\<lparr>bids := 1, ops := ops a1 @ [ADD_BID (Outpoint (tx_hash t) (of_nat i)), ADD_AUCTION]\<rparr>"
    by (simp add: a1_def auction_ops)
  show ?thesis
    using assms stale bid
    unfolding a1_def [symmetric]
    by (simp add: connect_output_def Let_def)
qed

subsection \<open>An input without an output at its index\<close>

text \<open>
  Claim C10, as amended. In \<^verbatim>\<open>connectCovenants\<close>, an input \<open>i\<close> whose prior
  covenant is BID, REVEAL, UPDATE or TRANSFER and that has no output at its index makes
  the engine raise (the assertion failure of \<^verbatim>\<open>assert(output)\<close>, or the exception
  of the auction lookup before it) and never return \<^verbatim>\<open>false\<close>; an input with
  prior covenant NONE, or with a covenant type above \<^verbatim>\<open>MAX_COVENANT_TYPE\<close>, is
  skipped without touching the view; and no other input without an output at its index
  is skipped. The inputs before \<open>i\<close> are accepted, from the view \<open>v0\<close> to the
  view \<open>v\<close>.
\<close>

theorem input_without_output:
  assumes "\<not> isCoinbase t"
    and "i < length (inputs t)"
    and "for_each (connect_input E db t hgt) [0..<i] v0 = Inr (Continue v)"
    and "getOutput v (prevout (inputs t ! i)) = Some coin"
    and "\<not> i < length (outputs t)"
  shows "(type (covenant coin) \<in> {BID, REVEAL, UPDATE, TRANSFER} \<longrightarrow>
            (case view_getAuctionFor db (prevout (inputs t ! i)) v of
               Inl e \<Rightarrow> connect_input E db t hgt i v = Inl e \<and>
                         connectCovenants E db t hgt v0 = Inl e
             | Inr r \<Rightarrow> connect_input E db t hgt i v = Inl AssertionError \<and>
                         connectCovenants E db t hgt v0 = Inl AssertionError)) \<and>
         (type (covenant coin) = NONE \<or> above_MAX_COVENANT_TYPE (type (covenant coin)) \<longrightarrow>
            connect_input E db t hgt i v = Inr (Continue v)) \<and>
         (\<forall>r. connect_input E db t hgt i v = Inr r \<longrightarrow>
            (type (covenant coin) = NONE \<or> above_MAX_COVENANT_TYPE (type (covenant coin))) \<and>
            r = Continue v)"
proof -
  have load: "load_auction db (prevout (inputs t ! i)) None v =
      (case view_getAuctionFor db (prevout (inputs t ! i)) v of
         Inl e \<Rightarrow> Inl e | Inr r \<Rightarrow> Inl AssertionError)"
    by (simp add: load_auction_def split: sum.splits prod.splits)
  have raise: "connectCovenants E db t hgt v0 = Inl e" if "connect_input E db t hgt i v = Inl e" for e
    using for_each_stops_at_error [OF assms(3) assms(2) that] assms(1)
    by (simp add: connectCovenants_def)
  have s1: "case view_getAuctionFor db (prevout (inputs t ! i)) v of
               Inl e \<Rightarrow> connect_input E db t hgt i v = Inl e
             | Inr r \<Rightarrow> connect_input E db t hgt i v = Inl AssertionError"
    if "type (covenant coin) \<in> {BID, REVEAL, UPDATE, TRANSFER}"
    using that assms(4,5) load
    by (auto simp: connect_input_def Let_def split: sum.splits)
  have s2: "connect_input E db t hgt i v = Inr (Continue v)"
    if "type (covenant coin) = NONE \<or> above_MAX_COVENANT_TYPE (type (covenant coin))"
    using that assms(4,5)
    by (cases "type (covenant coin)") (auto simp: connect_input_def Let_def)
  have s3: "(type (covenant coin) = NONE \<or> above_MAX_COVENANT_TYPE (type (covenant coin))) \<and>
            r = Continue v"
    if "connect_input E db t hgt i v = Inr r" for r
    using that assms(4,5) load
    by (cases "type (covenant coin)")
      (auto simp: connect_input_def Let_def split: sum.splits)
  have s1': "case view_getAuctionFor db (prevout (inputs t ! i)) v of
               Inl e \<Rightarrow> connect_input E db t hgt i v = Inl e \<and>
                         connectCovenants E db t hgt v0 = Inl e
             | Inr r \<Rightarrow> connect_input E db t hgt i v = Inl AssertionError \<and>
                         connectCovenants E db t hgt v0 = Inl AssertionError"
    if "type (covenant coin) \<in> {BID, REVEAL, UPDATE, TRANSFER}"
  proof (cases "view_getAuctionFor db (prevout (inputs t ! i)) v")
    case (Inl e)
    with s1 [OF that] have "connect_input E db t hgt i v = Inl e" by simp
    with raise Inl show ?thesis by simp
  next
    case (Inr r)
    with s1 [OF that] have "connect_input E db t hgt i v = Inl AssertionError" by simp
    with raise Inr show ?thesis by simp
  qed
  from s1' s2 s3 show ?thesis by blast
qed

section \<open>The engine on the example chain\<close>

lemmas db_reads =
  getAuction_def getAuctionHash_def getAuctionFor_def getUndo_def getUndoRenewal_def
  getTrieRoot_def get_def put_def del_def

lemmas view_reads =
  view_getAuction_def view_getAuctionFor_def view_ensureAuction_def load_auction_def

lemmas connect_arms =
  connect_BID_def connect_REVEAL_def connect_UPDATE_def connect_TRANSFER_def
  update_case_UPDATE_def update_case_TRANSFER_def update_case_RELEASE_def stale_release_def
  rollout_rejects_def auction_state_def item_def isNull_def null_outpoint_def

lemma put_auction_single:
  "nameHash a1 = nh \<Longrightarrow>
   put_auction a1 (v\<lparr>auctions := [(nh, a)]\<rparr>) = v\<lparr>auctions := [(nh, a1)]\<rparr>"
  by (simp add: put_auction_def)

subsection \<open>The block that reveals the bid\<close>

lemma coin_bid: "getOutput bid_view (Outpoint [1] 0) = Some bid_coin"
  by (simp add: getOutput_def bid_view_def)

lemma load_bid:
  "load_auction bid_db (Outpoint [1] 0) (Some out) bid_view =
     Inr (out, bid_auction, bid_view\<lparr>auctions := [([7], bid_auction)]\<rparr>)"
  by (simp add: view_reads db_reads bid_db_def bid_view_def bid_auction_def)

lemma arm_reveal:
  "connect_BID example_env 22 (Outpoint [1] 0) (Outpoint [2] 0) reveal_out bid_auction =
     Inr (Continue reveal_pending)"
  by (simp add: connect_arms auction_ops example_env_def reveal_out_def bid_auction_def
      reveal_pending_def)

lemma input_reveal:
  "connect_input example_env bid_db reveal_tx 22 0 bid_view =
     Inr (Continue (bid_view\<lparr>auctions := [([7], reveal_pending)]\<rparr>))"
proof -
  have "type (covenant bid_coin) = BID" by (simp add: bid_coin_def)
  moreover have "nameHash reveal_pending = [7]" by (simp add: reveal_pending_def)
  ultimately show ?thesis
    by (simp add: connect_input_def reveal_tx_def coin_bid load_bid arm_reveal store_flow_def
        put_auction_single)
qed

lemma output_reveal: "connect_output example_env bid_db reveal_tx 22 0 v = Inr (Continue v)"
  by (simp add: connect_output_def reveal_tx_def reveal_out_def)

lemma connect_reveal_tx:
  "connectCovenants example_env bid_db reveal_tx 22 bid_view =
     Inr (True, bid_view\<lparr>auctions := [([7], reveal_pending)]\<rparr>)"
proof -
  have "\<not> isCoinbase reveal_tx" "length (inputs reveal_tx) = Suc 0"
    "length (outputs reveal_tx) = Suc 0"
    by (simp_all add: reveal_tx_def)
  then show ?thesis
    by (simp add: connectCovenants_def input_reveal output_reveal)
qed

lemma verify_reveal_block:
  "verifyBlock example_env bid_db reveal_block 21 bid_view =
     Inr (True, bid_view\<lparr>auctions := [([7], reveal_pending)]\<rparr>)"
proof -
  have "getTrieRoot example_env bid_db = [0]"
    by (simp add: getTrieRoot_def example_env_def bid_db_def)
  then show ?thesis
    using connect_reveal_tx
    by (simp add: verifyBlock_def reveal_block_def)
qed

lemma save_reveal_block:
  "saveView example_env (bid_view\<lparr>auctions := [([7], reveal_pending)]\<rparr>) bid_db =
     Inr (reveal_db, bid_view\<lparr>auctions := [([7], reveal_pending\<lparr>ops := []\<rparr>)]\<rparr>)"
  by (simp add: saveView_def saveAuction_def reveal_pending_def bid_db_def reveal_db_def
      put_def del_def toRaw_def)

lemma load_reveal_undone:
  "load_auction reveal_db (Outpoint [1] 0) (Some out) v = Inl AssertionError"
  by (simp add: view_reads db_reads reveal_db_def)

lemma disconnect_reveal_tx:
  "disconnectCovenants example_env reveal_db reveal_tx 22 bid_view = Inl AssertionError"
proof -
  have "type (covenant bid_coin) = BID" by (simp add: bid_coin_def)
  then have "disconnect_input example_env reveal_db reveal_tx 22 0 bid_view = Inl AssertionError"
    by (simp add: disconnect_input_def reveal_tx_def coin_bid load_reveal_undone)
  moreover have "disconnect_output example_env reveal_db reveal_tx 22 0 bid_view = Inr bid_view"
    by (simp add: disconnect_output_def reveal_tx_def reveal_out_def)
  moreover have "length (inputs reveal_tx) = Suc 0" "length (outputs reveal_tx) = Suc 0"
    by (simp_all add: reveal_tx_def)
  ultimately show ?thesis
    by (simp add: disconnectCovenants_def)
qed

subsection \<open>The block of the first update\<close>

lemma coin_revealed: "getOutput revealed_view (Outpoint [1] 0) = Some reveal_out"
  by (simp add: getOutput_def revealed_view_def)

lemma load_revealed:
  "load_auction revealed_db (Outpoint [1] 0) (Some out) revealed_view =
     Inr (out, revealed_auction, revealed_view\<lparr>auctions := [([7], revealed_auction)]\<rparr>)"
  by (simp add: view_reads db_reads revealed_db_def revealed_view_def revealed_auction_def)

lemma pickWinner_revealed: "pickWinner revealed_db [7] = Inr (Some (Outpoint [1] 0))"
  by (simp add: pickWinner_def revealed_db_def iterator_r_def toU64_fromU64 List.map_filter_def)

lemma arm_first_update:
  "connect_REVEAL example_env revealed_db 20 (Outpoint [1] 0) (Outpoint [2] 0) first_update_out
     revealed_auction = Inr (Continue first_update_pending)"
proof -
  have "isNull (owner revealed_auction)" "nameHash revealed_auction = [7]"
    by (simp_all add: revealed_auction_def isNull_def)
  then show ?thesis
    by (simp add: connect_REVEAL_def pickWinner_revealed auction_state_def item_def auction_ops
        example_env_def first_update_out_def revealed_auction_def first_update_pending_def)
qed

lemma input_first_update:
  "connect_input example_env revealed_db first_update_tx 20 0 revealed_view =
     Inr (Continue (revealed_view\<lparr>auctions := [([7], first_update_pending)]\<rparr>))"
proof -
  have "type (covenant reveal_out) = REVEAL" by (simp add: reveal_out_def)
  moreover have "nameHash first_update_pending = [7]" by (simp add: first_update_pending_def)
  ultimately show ?thesis
    by (simp add: connect_input_def first_update_tx_def coin_revealed load_revealed
        arm_first_update store_flow_def put_auction_single)
qed

lemma output_first_update:
  "connect_output example_env revealed_db first_update_tx 20 0 v = Inr (Continue v)"
  by (simp add: connect_output_def first_update_tx_def first_update_out_def)

lemma connect_first_update_tx:
  "connectCovenants example_env revealed_db first_update_tx 20 revealed_view =
     Inr (True, revealed_view\<lparr>auctions := [([7], first_update_pending)]\<rparr>)"
proof -
  have "\<not> isCoinbase first_update_tx" "length (inputs first_update_tx) = Suc 0"
    "length (outputs first_update_tx) = Suc 0"
    by (simp_all add: first_update_tx_def)
  then show ?thesis
    by (simp add: connectCovenants_def input_first_update output_first_update)
qed

lemma root_revealed: "getTrieRoot example_env revealed_db = [0]"
  by (simp add: getTrieRoot_def example_env_def revealed_db_def)

lemma verify_first_update_block:
  "verifyBlock example_env revealed_db first_update_block 19 revealed_view =
     Inr (True, revealed_view\<lparr>auctions := [([7], first_update_pending)]\<rparr>)"
  using connect_first_update_tx root_revealed
  by (simp add: verifyBlock_def first_update_block_def)

lemma save_first_update_block:
  "saveView example_env (revealed_view\<lparr>auctions := [([7], first_update_pending)]\<rparr>) revealed_db =
     Inr (owned_db, revealed_view\<lparr>auctions := [([7], first_update_pending\<lparr>ops := []\<rparr>)]\<rparr>)"
  by (simp add: saveView_def saveAuction_def first_update_pending_def revealed_db_def
      owned_db_def put_def del_def toRaw_def example_env_def)

lemma root_owned: "getTrieRoot example_env owned_db = [1, 9]"
  by (simp add: getTrieRoot_def example_env_def owned_db_def)

subsection \<open>The renewal\<close>

lemma coin_owned: "getOutput owned_view (Outpoint [2] 0) = Some first_update_out"
  by (simp add: getOutput_def owned_view_def)

lemma load_owned:
  "load_auction owned_db (Outpoint [2] 0) (Some out) owned_view =
     Inr (out, owned_auction, owned_view\<lparr>auctions := [([7], owned_auction)]\<rparr>)"
  by (simp add: view_reads db_reads owned_db_def owned_view_def owned_auction_def)

lemma arm_renew:
  "connect_UPDATE example_env 40 (Outpoint [2] 0) (Outpoint [3] 0) renew_out owned_auction =
     Inr (Continue renew_pending)"
  by (simp add: connect_UPDATE_def update_case_UPDATE_def update_case_TRANSFER_def
      auction_state_def item_def auction_ops example_env_def renew_out_def owned_auction_def
      renew_pending_def)

lemma save_renew:
  "saveAuction example_env renew_pending owned_db = Inr (renewed_db, renew_pending\<lparr>ops := []\<rparr>)"
  by (simp add: saveAuction_def renew_pending_def owned_db_def renewed_db_def put_def del_def
      toRaw_def example_env_def)

subsection \<open>The plain update after the renewal, and its disconnection\<close>

lemma coin_renewed: "getOutput renewed_view (Outpoint [3] 0) = Some renew_out"
  by (simp add: getOutput_def renewed_view_def)

lemma load_renewed:
  "load_auction renewed_db (Outpoint [3] 0) (Some out) renewed_view =
     Inr (out, renewed_auction, renewed_view\<lparr>auctions := [([7], renewed_auction)]\<rparr>)"
  by (simp add: view_reads db_reads renewed_db_def renewed_view_def renewed_auction_def)

lemma arm_plain_update:
  "connect_UPDATE example_env 41 (Outpoint [3] 0) (Outpoint [4] 0) plain_update_out
     renewed_auction = Inr (Continue plain_update_pending)"
  by (simp add: connect_UPDATE_def update_case_UPDATE_def update_case_TRANSFER_def
      auction_state_def item_def auction_ops example_env_def plain_update_out_def
      renewed_auction_def plain_update_pending_def)

lemma connect_plain_update_tx:
  "connectCovenants example_env renewed_db plain_update_tx 41 renewed_view =
     Inr (True, renewed_view\<lparr>auctions := [([7], plain_update_pending)]\<rparr>)"
proof -
  have "type (covenant renew_out) = UPDATE" by (simp add: renew_out_def)
  moreover have "nameHash plain_update_pending = [7]" by (simp add: plain_update_pending_def)
  ultimately have "connect_input example_env renewed_db plain_update_tx 41 0 renewed_view =
      Inr (Continue (renewed_view\<lparr>auctions := [([7], plain_update_pending)]\<rparr>))"
    by (simp add: connect_input_def plain_update_tx_def coin_renewed load_renewed
        arm_plain_update store_flow_def put_auction_single)
  moreover have "\<And>v. connect_output example_env renewed_db plain_update_tx 41 0 v = Inr (Continue v)"
    by (simp add: connect_output_def plain_update_tx_def plain_update_out_def)
  moreover have "\<not> isCoinbase plain_update_tx" "length (inputs plain_update_tx) = Suc 0"
    "length (outputs plain_update_tx) = Suc 0"
    by (simp_all add: plain_update_tx_def)
  ultimately show ?thesis
    by (simp add: connectCovenants_def)
qed

lemma save_plain_update:
  "saveView example_env (renewed_view\<lparr>auctions := [([7], plain_update_pending)]\<rparr>) renewed_db =
     Inr (plain_update_db, renewed_view\<lparr>auctions := [([7], plain_update_pending\<lparr>ops := []\<rparr>)]\<rparr>)"
  by (simp add: saveView_def saveAuction_def plain_update_pending_def renewed_db_def
      plain_update_db_def put_def del_def toRaw_def example_env_def)

lemma no_renewal_undo: "getUndoRenewal plain_update_db (Outpoint [3] 0) = Inr None"
  by (simp add: getUndoRenewal_def get_def plain_update_db_def)

lemma load_plain_update:
  "load_auction plain_update_db (Outpoint [3] 0) (Some out) renewed_view =
     Inr (out, plain_update_auction, renewed_view\<lparr>auctions := [([7], plain_update_auction)]\<rparr>)"
  by (simp add: view_reads db_reads plain_update_db_def renewed_view_def plain_update_auction_def)

lemma arm_undo_plain_update:
  "disconnect_UPDATE example_env plain_update_db 41 (Outpoint [3] 0) (Outpoint [4] 0)
     (covenant renew_out) plain_update_out plain_update_auction = Inr plain_update_undone"
  by (simp add: disconnect_UPDATE_def no_renewal_undo auction_state_def item_def auction_ops
      example_env_def renew_out_def plain_update_out_def plain_update_auction_def
      plain_update_undone_def)

lemma disconnect_plain_update_tx:
  "disconnectCovenants example_env plain_update_db plain_update_tx 41 renewed_view =
     Inr (renewed_view\<lparr>auctions := [([7], plain_update_undone)]\<rparr>)"
proof -
  have "type (covenant renew_out) = UPDATE" by (simp add: renew_out_def)
  moreover have "nameHash plain_update_undone = [7]" by (simp add: plain_update_undone_def)
  ultimately have "disconnect_input example_env plain_update_db plain_update_tx 41 0 renewed_view =
      Inr (renewed_view\<lparr>auctions := [([7], plain_update_undone)]\<rparr>)"
    by (simp add: disconnect_input_def plain_update_tx_def coin_renewed load_plain_update
        arm_undo_plain_update store_auction_def put_auction_single)
  moreover have "\<And>v. disconnect_output example_env plain_update_db plain_update_tx 41 0 v = Inr v"
    by (simp add: disconnect_output_def plain_update_tx_def plain_update_out_def)
  moreover have "length (inputs plain_update_tx) = Suc 0" "length (outputs plain_update_tx) = Suc 0"
    by (simp_all add: plain_update_tx_def)
  ultimately show ?thesis
    by (simp add: disconnectCovenants_def)
qed

section \<open>The claims on the example chain\<close>

subsection \<open>The trie root\<close>

theorem verifyBlock_checks_prior_root_witness:
  "verifyBlock example_env revealed_db first_update_block 19 revealed_view =
     Inr (True, revealed_view\<lparr>auctions := [([7], first_update_pending)]\<rparr>) \<and>
   trieRoot first_update_block = getTrieRoot example_env revealed_db"
  using verify_first_update_block
    verifyBlock_checks_prior_root [OF verify_first_update_block]
  by simp

theorem accepted_block_changes_root:
  "verifyBlock example_env revealed_db first_update_block 19 revealed_view =
     Inr (True, revealed_view\<lparr>auctions := [([7], first_update_pending)]\<rparr>) \<and>
   saveView example_env (revealed_view\<lparr>auctions := [([7], first_update_pending)]\<rparr>) revealed_db =
     Inr (owned_db, revealed_view\<lparr>auctions := [([7], first_update_pending\<lparr>ops := []\<rparr>)]\<rparr>) \<and>
   trieRoot first_update_block = [0] \<and>
   getTrieRoot example_env owned_db = [1, 9] \<and>
   getTrieRoot example_env owned_db \<noteq> trieRoot first_update_block"
  using verify_first_update_block save_first_update_block root_owned
  by (simp add: first_update_block_def)

subsection \<open>Renewal\<close>

theorem renewal_records_prior_height_witness:
  "connect_UPDATE example_env 40 (Outpoint [2] 0) (Outpoint [3] 0) renew_out owned_auction =
     Inr (Continue renew_pending) \<and>
   renewal owned_auction = Some 20 \<and>
   renewal renew_pending = Some 40 \<and>
   saveAuction example_env renew_pending owned_db =
     Inr (renewed_db, renew_pending\<lparr>ops := []\<rparr>) \<and>
   get (bucket renewed_db) (layout_k [2] 0) = Some (fromU32 20) \<and>
   toU32 (fromU32 20) = Inr 20"
proof -
  have h: "auction_state example_env owned_auction 40 = states_CLOSED"
    "Outpoint [2] 0 = owner owned_auction"
    "type (covenant renew_out) = UPDATE"
    "length (items (covenant renew_out)) = 3"
    "getEntry example_env (items (covenant renew_out) ! 2) =
       Some \<lparr>entry_hash = [5], entry_height = 38\<rparr>"
    "isMainChain example_env \<lparr>entry_hash = [5], entry_height = 38\<rparr>"
    "entry_height \<lparr>entry_hash = [5], entry_height = 38\<rparr> \<le> 40 - COINBASE_MATURITY example_env"
    "40 - RENEWAL_PERIOD example_env \<le> entry_height \<lparr>entry_hash = [5], entry_height = 38\<rparr>"
    by (simp_all add: auction_state_def example_env_def owned_auction_def renew_out_def)
  from renewal_records_prior_height [OF h, of "Outpoint [3] 0"] obtain a1 where
    a1: "connect_UPDATE example_env 40 (Outpoint [2] 0) (Outpoint [3] 0) renew_out owned_auction =
           Inr (Continue a1)"
    and r: "renewal a1 = Some 40"
    and fl: "\<forall>db db1. save_ops example_env a1 (ops owned_auction) db = Inr db1 \<longrightarrow>
              (\<exists>db2. saveAuction example_env a1 db = Inr (db2, a1\<lparr>ops := []\<rparr>) \<and>
                 get (bucket db2) (layout_k (hash (Outpoint [2] 0)) (index (Outpoint [2] 0))) =
                   Some (fromU32 (num (renewal owned_auction))) \<and>
                 toU32 (fromU32 (num (renewal owned_auction))) =
                   Inr (num (renewal owned_auction) mod 2 ^ 32))"
    by blast
  from a1 arm_renew have eq: "a1 = renew_pending" by simp
  have "save_ops example_env renew_pending (ops owned_auction) owned_db = Inr owned_db"
    by (simp add: owned_auction_def)
  with fl eq obtain db2 where
    "saveAuction example_env renew_pending owned_db = Inr (db2, renew_pending\<lparr>ops := []\<rparr>)"
    "get (bucket db2) (layout_k (hash (Outpoint [2] 0)) (index (Outpoint [2] 0))) =
       Some (fromU32 (num (renewal owned_auction)))"
    "toU32 (fromU32 (num (renewal owned_auction))) = Inr (num (renewal owned_auction) mod 2 ^ 32)"
    by blast
  moreover have "renewal owned_auction = Some 20" by (simp add: owned_auction_def)
  ultimately show ?thesis
    using arm_renew save_renew r eq by simp
qed

lemma connect_renew_tx:
  "connectCovenants example_env owned_db renew_tx 40 owned_view =
     Inr (True, owned_view\<lparr>auctions := [([7], renew_pending)]\<rparr>)"
proof -
  have "type (covenant first_update_out) = UPDATE" by (simp add: first_update_out_def)
  moreover have "nameHash renew_pending = [7]" by (simp add: renew_pending_def)
  ultimately have "connect_input example_env owned_db renew_tx 40 0 owned_view =
      Inr (Continue (owned_view\<lparr>auctions := [([7], renew_pending)]\<rparr>))"
    by (simp add: connect_input_def renew_tx_def coin_owned load_owned arm_renew store_flow_def
        put_auction_single)
  moreover have "\<And>v. connect_output example_env owned_db renew_tx 40 0 v = Inr (Continue v)"
    by (simp add: connect_output_def renew_tx_def renew_out_def)
  moreover have "\<not> isCoinbase renew_tx" "length (inputs renew_tx) = Suc 0"
    "length (outputs renew_tx) = Suc 0"
    by (simp_all add: renew_tx_def)
  ultimately show ?thesis
    by (simp add: connectCovenants_def)
qed

theorem renewal_accepted_iff_witness:
  "getEntry example_env (items (covenant renew_out) ! 2) =
     Some \<lparr>entry_hash = [5], entry_height = 40 - COINBASE_MATURITY example_env\<rparr> \<and>
   connect_input example_env owned_db renew_tx 40 0 owned_view =
     Inr (Continue (owned_view\<lparr>auctions := [([7], renew_pending)]\<rparr>)) \<and>
   connectCovenants example_env owned_db renew_tx 40 owned_view =
     Inr (True, owned_view\<lparr>auctions := [([7], renew_pending)]\<rparr>) \<and>
   getEntry example_env (items (covenant immature_out) ! 2) =
     Some \<lparr>entry_hash = [6], entry_height = 40 - COINBASE_MATURITY example_env + 1\<rparr> \<and>
   connectCovenants example_env owned_db immature_tx 40 owned_view =
     Inr (False, owned_view\<lparr>auctions :=
        [([7], commit (Some [10]) (setOwner (Outpoint [3] 0) owned_auction))]\<rparr>)"
proof -
  have t: "\<not> isCoinbase renew_tx" "0 < length (inputs renew_tx)" "0 < length (outputs renew_tx)"
    "inputs renew_tx ! 0 = \<lparr>prevout = Outpoint [2] 0\<rparr>" "outputs renew_tx ! 0 = renew_out"
    "tx_hash renew_tx = [3]"
    by (simp_all add: renew_tx_def)
  have t': "\<not> isCoinbase immature_tx" "0 < length (inputs immature_tx)"
    "0 < length (outputs immature_tx)"
    "inputs immature_tx ! 0 = \<lparr>prevout = Outpoint [2] 0\<rparr>" "outputs immature_tx ! 0 = immature_out"
    "tx_hash immature_tx = [3]"
    by (simp_all add: immature_tx_def)
  have c: "type (covenant first_update_out) = UPDATE"
    by (simp add: first_update_out_def)
  have a: "auction_state example_env owned_auction 40 = states_CLOSED"
    by (simp add: auction_state_def example_env_def owned_auction_def)
  have e: "getEntry example_env (items (covenant renew_out) ! 2) =
      Some \<lparr>entry_hash = [5], entry_height = 38\<rparr>"
    "getEntry example_env (items (covenant immature_out) ! 2) =
      Some \<lparr>entry_hash = [6], entry_height = 39\<rparr>"
    "COINBASE_MATURITY example_env = 2" "RENEWAL_PERIOD example_env = 8"
    "isMainChain example_env \<lparr>entry_hash = [5], entry_height = 38\<rparr>"
    by (simp_all add: example_env_def renew_out_def immature_out_def)
  have h: "for_each (connect_input example_env owned_db renew_tx 40) [0..<0] owned_view =
      Inr (Continue owned_view)"
    "for_each (connect_input example_env owned_db immature_tx 40) [0..<0] owned_view =
      Inr (Continue owned_view)"
    by simp_all
  have g: "getOutput owned_view (prevout (inputs renew_tx ! 0)) = Some first_update_out"
    "getOutput owned_view (prevout (inputs immature_tx ! 0)) = Some first_update_out"
    by (simp_all add: t t' coin_owned)
  have l: "load_auction owned_db (prevout (inputs renew_tx ! 0)) (Some (outputs renew_tx ! 0))
      owned_view = Inr (outputs renew_tx ! 0, owned_auction,
        owned_view\<lparr>auctions := [([7], owned_auction)]\<rparr>)"
    "load_auction owned_db (prevout (inputs immature_tx ! 0)) (Some (outputs immature_tx ! 0))
      owned_view = Inr (outputs immature_tx ! 0, owned_auction,
        owned_view\<lparr>auctions := [([7], owned_auction)]\<rparr>)"
    by (simp_all add: t t' load_owned)
  have o: "type (covenant (outputs renew_tx ! 0)) = UPDATE"
    "length (items (covenant (outputs renew_tx ! 0))) = 3"
    "owner owned_auction = prevout (inputs renew_tx ! 0)"
    by (simp_all add: t renew_out_def owned_auction_def)
  have o': "type (covenant (outputs immature_tx ! 0)) = UPDATE"
    "length (items (covenant (outputs immature_tx ! 0))) = 3"
    "owner owned_auction = prevout (inputs immature_tx ! 0)"
    by (simp_all add: t' immature_out_def owned_auction_def)
  have ok: "\<exists>en. getEntry example_env (items (covenant (outputs renew_tx ! 0)) ! 2) = Some en \<and>
      isMainChain example_env en \<and> entry_height en \<le> 40 - COINBASE_MATURITY example_env \<and>
      entry_height en \<ge> 40 - RENEWAL_PERIOD example_env"
    using e t by simp
  have bad: "\<not> (\<exists>en. getEntry example_env (items (covenant (outputs immature_tx ! 0)) ! 2) = Some en \<and>
      isMainChain example_env en \<and> entry_height en \<le> 40 - COINBASE_MATURITY example_env \<and>
      entry_height en \<ge> 40 - RENEWAL_PERIOD example_env)"
    using e t' by simp
  note w = renewal_accepted_iff [OF t(1) t(2) t(3) h(1) g(1) c o(1) o(2) l(1) a o(3)]
  note w' = renewal_accepted_iff [OF t'(1) t'(2) t'(3) h(2) g(2) c o'(1) o'(2) l(2) a o'(3)]
  from w [THEN conjunct1] ok
  have w1: "connect_input example_env owned_db renew_tx 40 0 owned_view =
      Inr (Continue (put_auction
             (save (addRenewal (prevout (inputs renew_tx ! 0)) 40
                (commit (item (covenant (outputs renew_tx ! 0)) 1)
                   (setOwner (Outpoint (tx_hash renew_tx) (of_nat 0)) owned_auction))))
             (owned_view\<lparr>auctions := [([7], owned_auction)]\<rparr>)))"
    by (simp only: if_True)
  from w' [THEN conjunct2] bad
  have w2: "connectCovenants example_env owned_db immature_tx 40 owned_view =
      Inr (False, put_auction
             (commit (item (covenant (outputs immature_tx ! 0)) 1)
                (setOwner (Outpoint (tx_hash immature_tx) (of_nat 0)) owned_auction))
             (owned_view\<lparr>auctions := [([7], owned_auction)]\<rparr>))"
    by (rule mp)
  have r2: "put_auction
             (commit (item (covenant (outputs immature_tx ! 0)) 1)
                (setOwner (Outpoint (tx_hash immature_tx) (of_nat 0)) owned_auction))
             (owned_view\<lparr>auctions := [([7], owned_auction)]\<rparr>) =
      owned_view\<lparr>auctions :=
        [([7], commit (Some [10]) (setOwner (Outpoint [3] 0) owned_auction))]\<rparr>"
    by (simp add: t' item_def immature_out_def put_auction_def auction_ops owned_auction_def)
  have r1: "put_auction
             (save (addRenewal (prevout (inputs renew_tx ! 0)) 40
                (commit (item (covenant (outputs renew_tx ! 0)) 1)
                   (setOwner (Outpoint (tx_hash renew_tx) (of_nat 0)) owned_auction))))
             (owned_view\<lparr>auctions := [([7], owned_auction)]\<rparr>) =
      owned_view\<lparr>auctions := [([7], renew_pending)]\<rparr>"
    by (simp add: t item_def renew_out_def put_auction_def auction_ops owned_auction_def
        renew_pending_def)
  from w1 r1 have "connect_input example_env owned_db renew_tx 40 0 owned_view =
      Inr (Continue (owned_view\<lparr>auctions := [([7], renew_pending)]\<rparr>))"
    by (simp only:)
  moreover from w2 r2 have "connectCovenants example_env owned_db immature_tx 40 owned_view =
      Inr (False, owned_view\<lparr>auctions :=
        [([7], commit (Some [10]) (setOwner (Outpoint [3] 0) owned_auction))]\<rparr>)"
    by (simp only:)
  ultimately show ?thesis
    using connect_renew_tx e by simp
qed

subsection \<open>Rollback of a revealed bid\<close>

text \<open>
  Whatever the auction, the \<^verbatim>\<open>bid <- reveal\<close> case only logs the removal of
  the reveal: the count of bids is not restored and no bid is logged.
\<close>

lemma disconnect_BID_logs_only_the_reveal:
  assumes "disconnect_BID E hgt outpoint out a = Inr a1"
  shows "ops a1 = ops a @ [REMOVE_REVEAL outpoint] \<and> bids a1 = bids a"
  using assms
  by (cases "type (covenant out)")
    (auto simp: disconnect_BID_def removeReveal_def split: if_splits)

text \<open>
  Claim C1, on the block that reveals the bid of the example chain: the block is
  accepted and flushed, which deletes the bid record and the reverse-index record of the
  spent outpoint; \<^verbatim>\<open>disconnectCovenants\<close> for the same transaction then fails the
  assertion \<^verbatim>\<open>assert(auction)\<close>, and the database keeps the state of the
  connected block, which differs from the state before it. The
  \<^verbatim>\<open>bid <- reveal\<close> case itself, run on the auction of the connected block, only
  logs the removal of the reveal: the bid is not added again.
\<close>

theorem reveal_block_not_rolled_back:
  "verifyBlock example_env bid_db reveal_block 21 bid_view =
     Inr (True, bid_view\<lparr>auctions := [([7], reveal_pending)]\<rparr>) \<and>
   saveView example_env (bid_view\<lparr>auctions := [([7], reveal_pending)]\<rparr>) bid_db =
     Inr (reveal_db, bid_view\<lparr>auctions := [([7], reveal_pending\<lparr>ops := []\<rparr>)]\<rparr>) \<and>
   disconnectCovenants example_env reveal_db reveal_tx 22 bid_view = Inl AssertionError \<and>
   get (bucket bid_db) (layout_b [7] [1] 0) = Some (Buf []) \<and>
   get (bucket reveal_db) (layout_b [7] [1] 0) = None \<and>
   disconnect_BID example_env 22 (Outpoint [2] 0) reveal_out (reveal_pending\<lparr>ops := []\<rparr>) =
     Inr (reveal_pending\<lparr>ops := [REMOVE_REVEAL (Outpoint [2] 0)]\<rparr>)"
proof -
  have "get (bucket bid_db) (layout_b [7] [1] 0) = Some (Buf [])"
    "get (bucket reveal_db) (layout_b [7] [1] 0) = None"
    by (simp_all add: get_def bid_db_def reveal_db_def)
  moreover have "disconnect_BID example_env 22 (Outpoint [2] 0) reveal_out
      (reveal_pending\<lparr>ops := []\<rparr>) =
     Inr (reveal_pending\<lparr>ops := [REMOVE_REVEAL (Outpoint [2] 0)]\<rparr>)"
    by (simp add: disconnect_BID_def auction_state_def example_env_def reveal_out_def
        reveal_pending_def removeReveal_def)
  ultimately show ?thesis
    using verify_reveal_block save_reveal_block disconnect_reveal_tx by simp
qed

subsection \<open>A missing renewal undo\<close>

text \<open>
  Whatever the state, a missing renewal undo passes the assertion of the
  \<^verbatim>\<open>update <- update\<close> case and becomes the renewal height of the auction.
\<close>

lemma disconnect_UPDATE_without_renewal_undo:
  assumes "auction_state E a hgt = states_CLOSED"
    and "type (covenant out) = UPDATE"
    and "owner a = outpoint"
    and "length (items uc) = 3"
    and "getUndoRenewal db po = Inr None"
  shows "disconnect_UPDATE E db hgt po outpoint uc out a =
           Inr (save ((removeRenewal po (commit (item uc 1) (setOwner po a)))\<lparr>renewal := None\<rparr>))"
  using assms by (simp add: disconnect_UPDATE_def)

text \<open>
  Claim C4, on the plain update of the example chain, which spends an output whose
  covenant has three items: the update is accepted and flushed without a
  \<^verbatim>\<open>k\<close> record for the prevout; \<^verbatim>\<open>disconnectCovenants\<close> then reads the
  missing renewal undo, passes \<^verbatim>\<open>assert(undo !== -1)\<close> and completes, leaving
  \<^verbatim>\<open>auction.renewal\<close> set to \<^verbatim>\<open>null\<close>.
\<close>

theorem missing_renewal_undo_is_silent:
  "connectCovenants example_env renewed_db plain_update_tx 41 renewed_view =
     Inr (True, renewed_view\<lparr>auctions := [([7], plain_update_pending)]\<rparr>) \<and>
   saveView example_env (renewed_view\<lparr>auctions := [([7], plain_update_pending)]\<rparr>) renewed_db =
     Inr (plain_update_db, renewed_view\<lparr>auctions := [([7], plain_update_pending\<lparr>ops := []\<rparr>)]\<rparr>) \<and>
   getUndoRenewal plain_update_db (Outpoint [3] 0) = Inr None \<and>
   disconnectCovenants example_env plain_update_db plain_update_tx 41 renewed_view =
     Inr (renewed_view\<lparr>auctions := [([7], plain_update_undone)]\<rparr>) \<and>
   renewal plain_update_undone = None"
  using connect_plain_update_tx save_plain_update no_renewal_undo disconnect_plain_update_tx
  by (simp add: plain_update_undone_def)

subsection \<open>A bid on a name that was never won\<close>

lemma ensure_owned:
  "view_ensureAuction owned_db [7] [7] 70 empty_view =
     Inr (owned_auction, empty_view\<lparr>auctions := [([7], owned_auction)]\<rparr>)"
  by (simp add: view_reads db_reads owned_db_def empty_view_def owned_auction_def)

lemma stale_bid_on_owned_name_resets:
  "view_ensureAuction owned_db [7] (digest example_env [7]) 70 empty_view =
     Inr (owned_auction, empty_view\<lparr>auctions := [([7], owned_auction)]\<rparr>) \<and>
   70 \<ge> num (renewal owned_auction) + RENEWAL_WINDOW example_env \<and>
   \<not> isNull (owner owned_auction) \<and>
   connect_output example_env owned_db rebid_tx 70 0 empty_view =
     Inr (Continue (empty_view\<lparr>auctions := [([7], rebid_reset)]\<rparr>))"
proof -
  have d: "digest example_env [7] = [7]" by (simp add: example_env_def)
  have h: "0 < length (outputs rebid_tx)"
    "type (covenant (outputs rebid_tx ! 0)) = BID"
    "item (covenant (outputs rebid_tx ! 0)) 0 = Some [7]"
    "\<not> rollout_rejects example_env (digest example_env [7]) 70"
    "view_ensureAuction owned_db [7] (digest example_env [7]) 70 empty_view =
       Inr (owned_auction, empty_view\<lparr>auctions := [([7], owned_auction)]\<rparr>)"
    "70 \<ge> num (renewal owned_auction) + RENEWAL_WINDOW example_env"
    by (simp_all add: rebid_tx_def rebid_out_def item_def rollout_rejects_def example_env_def
        ensure_owned owned_auction_def)
  have n: "\<not> isNull (owner owned_auction)"
    by (simp add: owned_auction_def isNull_def null_outpoint_def)
  have "connect_output example_env owned_db rebid_tx 70 0 empty_view =
      Inr (Continue (empty_view\<lparr>auctions := [([7], rebid_reset)]\<rparr>))"
    using stale_bid_resets_owned_auction [OF h] n
    by (simp add: Let_def auction_state_def example_env_def owned_auction_def toRaw_def
        rebid_tx_def rebid_reset_def put_auction_def)
  with h(5,6) n show ?thesis by simp
qed

lemma output_open:
  "connect_output example_env empty_db open_tx 16 0 empty_view =
     Inr (Continue (empty_view\<lparr>auctions := [([7], open_pending)]\<rparr>))"
proof -
  have "type (covenant bid_coin) = BID" "item (covenant bid_coin) 0 = Some [7]"
    by (simp_all add: bid_coin_def item_def)
  then show ?thesis
    by (simp add: connect_output_def open_tx_def view_reads db_reads empty_db_def empty_view_def
        stale_release_def rollout_rejects_def auction_state_def auction_ops example_env_def
        open_pending_def put_auction_def Let_def)
qed

lemma connect_open_tx:
  "connectCovenants example_env empty_db open_tx 16 empty_view =
     Inr (True, empty_view\<lparr>auctions := [([7], open_pending)]\<rparr>)"
proof -
  have "\<not> isCoinbase open_tx" "inputs open_tx = []" "length (outputs open_tx) = Suc 0"
    by (simp_all add: open_tx_def)
  then show ?thesis
    by (simp add: connectCovenants_def output_open)
qed

lemma save_open_tx:
  "saveView example_env (empty_view\<lparr>auctions := [([7], open_pending)]\<rparr>) empty_db =
     Inr (opened_db, empty_view\<lparr>auctions := [([7], unowned_auction)]\<rparr>)"
  by (simp add: saveView_def saveAuction_def open_pending_def empty_db_def opened_db_def
      unowned_auction_def put_def toRaw_def)

lemma ensure_unowned:
  "view_ensureAuction opened_db [7] [7] 70 empty_view =
     Inr (unowned_auction, empty_view\<lparr>auctions := [([7], unowned_auction)]\<rparr>)"
  by (simp add: view_reads db_reads opened_db_def empty_view_def unowned_auction_def
      open_pending_def)

text \<open>
  Claim C7, on a name of the example chain that was never won. The claim: in
  \<^verbatim>\<open>connectCovenants\<close>, for every output \<open>i\<close> whose covenant is BID on an
  auction with \<^verbatim>\<open>height >= renewal + RENEWAL_WINDOW\<close>, the engine records an undo
  snapshot keyed by the synthetic outpoint \<^verbatim>\<open>(tx_hash, i | 0x80000000)\<close>, sets the
  owner to null, sets \<^verbatim>\<open>auction.height\<close> and \<^verbatim>\<open>auction.renewal\<close> to the
  current height, sets \<^verbatim>\<open>bids\<close> to 0 and removes the trie entry, before it
  requires the BIDDING phase and adds the bid. On the empty database the transaction
  \<open>open_tx\<close> opens the auction of the name at height 16 and the view is flushed; the
  bid is never revealed, so the owner stays null. At height 70 the name has not been
  renewed for \<^verbatim>\<open>RENEWAL_WINDOW\<close> blocks, and a new bid on it does not start the
  auction over: the branch begins with \<^verbatim>\<open>assert(!auction.owner.isNull())\<close>, which
  fails.
\<close>

theorem stale_bid_on_unowned_name_asserts:
  "connectCovenants example_env empty_db open_tx 16 empty_view =
     Inr (True, empty_view\<lparr>auctions := [([7], open_pending)]\<rparr>) \<and>
   saveView example_env (empty_view\<lparr>auctions := [([7], open_pending)]\<rparr>) empty_db =
     Inr (opened_db, empty_view\<lparr>auctions := [([7], unowned_auction)]\<rparr>) \<and>
   view_ensureAuction opened_db [7] (digest example_env [7]) 70 empty_view =
     Inr (unowned_auction, empty_view\<lparr>auctions := [([7], unowned_auction)]\<rparr>) \<and>
   owner unowned_auction = null_outpoint \<and>
   70 \<ge> num (renewal unowned_auction) + RENEWAL_WINDOW example_env \<and>
   connect_output example_env opened_db rebid_tx 70 0 empty_view = Inl AssertionError \<and>
   connectCovenants example_env opened_db rebid_tx 70 empty_view = Inl AssertionError"
proof -
  have d: "digest example_env [7] = [7]" by (simp add: example_env_def)
  have o: "owner unowned_auction = null_outpoint"
    by (simp add: unowned_auction_def open_pending_def)
  have st: "70 \<ge> num (renewal unowned_auction) + RENEWAL_WINDOW example_env"
    by (simp add: unowned_auction_def open_pending_def example_env_def)
  have "type (covenant rebid_out) = BID" "item (covenant rebid_out) 0 = Some [7]"
    "\<not> rollout_rejects example_env [7] 70" "isNull (owner unowned_auction)"
    by (simp_all add: rebid_out_def item_def rollout_rejects_def example_env_def o isNull_def)
  then have out: "connect_output example_env opened_db rebid_tx 70 0 empty_view = Inl AssertionError"
    using st d
    by (simp add: connect_output_def rebid_tx_def ensure_unowned stale_release_def)
  have "\<not> isCoinbase rebid_tx" "inputs rebid_tx = []" "length (outputs rebid_tx) = Suc 0"
    by (simp_all add: rebid_tx_def)
  then have all: "connectCovenants example_env opened_db rebid_tx 70 empty_view = Inl AssertionError"
    using out by (simp add: connectCovenants_def)
  from connect_open_tx save_open_tx ensure_unowned d o st out all show ?thesis by simp
qed

subsection \<open>An input without an output at its index\<close>

lemma coin_unknown: "getOutput unknown_view (Outpoint [1] 0) = Some unknown_coin"
  by (simp add: getOutput_def unknown_view_def)

theorem unknown_covenant_input_is_skipped:
  "getOutput unknown_view (prevout (inputs orphan_tx ! 0)) = Some unknown_coin \<and>
   type (covenant unknown_coin) = UNKNOWN 9 \<and>
   outputs orphan_tx = [] \<and>
   connect_input example_env bid_db orphan_tx 22 0 unknown_view = Inr (Continue unknown_view) \<and>
   connectCovenants example_env bid_db orphan_tx 22 unknown_view = Inr (True, unknown_view)"
proof -
  have t: "prevout (inputs orphan_tx ! 0) = Outpoint [1] 0" "outputs orphan_tx = []"
    "length (inputs orphan_tx) = Suc 0" "\<not> isCoinbase orphan_tx"
    by (simp_all add: orphan_tx_def)
  have u: "type (covenant unknown_coin) = UNKNOWN 9" by (simp add: unknown_coin_def)
  have i: "connect_input example_env bid_db orphan_tx 22 0 unknown_view = Inr (Continue unknown_view)"
    using t u by (simp add: connect_input_def coin_unknown)
  then have "connectCovenants example_env bid_db orphan_tx 22 unknown_view = Inr (True, unknown_view)"
    using t by (simp add: connectCovenants_def)
  with t u i coin_unknown show ?thesis by simp
qed

theorem input_without_output_witness:
  "getOutput bid_view (prevout (inputs orphan_tx ! 0)) = Some bid_coin \<and>
   type (covenant bid_coin) = BID \<and>
   \<not> 0 < length (outputs orphan_tx) \<and>
   connect_input example_env bid_db orphan_tx 22 0 bid_view = Inl AssertionError \<and>
   connectCovenants example_env bid_db orphan_tx 22 bid_view = Inl AssertionError \<and>
   connect_input example_env bid_db orphan_tx 22 0 unknown_view = Inr (Continue unknown_view)"
proof -
  have t: "prevout (inputs orphan_tx ! 0) = Outpoint [1] 0" "\<not> 0 < length (outputs orphan_tx)"
    by (simp_all add: orphan_tx_def)
  have c: "getOutput bid_view (prevout (inputs orphan_tx ! 0)) = Some bid_coin"
    "getOutput unknown_view (prevout (inputs orphan_tx ! 0)) = Some unknown_coin"
    using t by (simp_all add: coin_bid coin_unknown)
  have k: "type (covenant bid_coin) = BID" "type (covenant unknown_coin) = UNKNOWN 9"
    by (simp_all add: bid_coin_def unknown_coin_def)
  have l: "view_getAuctionFor bid_db (Outpoint [1] 0) bid_view =
      Inr (Some bid_auction, bid_view\<lparr>auctions := [([7], bid_auction)]\<rparr>)"
    by (simp add: view_reads db_reads bid_db_def bid_view_def bid_auction_def)
  have p: "\<not> isCoinbase orphan_tx" "0 < length (inputs orphan_tx)"
    "for_each (connect_input example_env bid_db orphan_tx 22) [0..<0] bid_view = Inr (Continue bid_view)"
    "for_each (connect_input example_env bid_db orphan_tx 22) [0..<0] unknown_view =
       Inr (Continue unknown_view)"
    by (simp_all add: orphan_tx_def)
  note w1 = input_without_output [OF p(1) p(2) p(3) c(1) t(2)]
  note w2 = input_without_output [OF p(1) p(2) p(4) c(2) t(2)]
  have m: "type (covenant bid_coin) \<in> {BID, REVEAL, UPDATE, TRANSFER}"
    using k by simp
  have "case view_getAuctionFor bid_db (prevout (inputs orphan_tx ! 0)) bid_view of
          Inl e \<Rightarrow> connect_input example_env bid_db orphan_tx 22 0 bid_view = Inl e \<and>
                    connectCovenants example_env bid_db orphan_tx 22 bid_view = Inl e
        | Inr r \<Rightarrow> connect_input example_env bid_db orphan_tx 22 0 bid_view = Inl AssertionError \<and>
                    connectCovenants example_env bid_db orphan_tx 22 bid_view = Inl AssertionError"
    using w1 [THEN conjunct1] m by (rule mp)
  then have "connect_input example_env bid_db orphan_tx 22 0 bid_view = Inl AssertionError \<and>
      connectCovenants example_env bid_db orphan_tx 22 bid_view = Inl AssertionError"
    by (simp only: t l sum.case)
  moreover have "type (covenant unknown_coin) = NONE \<or>
      above_MAX_COVENANT_TYPE (type (covenant unknown_coin))"
    using k by simp
  with w2 [THEN conjunct2, THEN conjunct1]
  have "connect_input example_env bid_db orphan_tx 22 0 unknown_view = Inr (Continue unknown_view)"
    by (rule mp)
  ultimately show ?thesis
    using c k t by simp
qed

end
